theory Spec2Isabelle
  imports
    Complex_Main
    "HOL-Library.Multiset"
    "HOL-Library.Char_ord"
    "HOL-Library.List_Lexorder"
    "HOL-Library.Log_Nat"
    "HOL-Library.Code_Target_Numeral"
begin

section \<open>The notebook \<^verbatim>\<open>automatic_model_tuning.ipynb\<close>\<close>

text \<open>
  The repository is one Jupyter notebook (Python 3 kernel). Its code cells are straight-line
  scripts over a pandas dataframe and the SageMaker SDK. A cell is modelled as a function of
  the variables it reads. A cell that raises stops at the raising statement; the bindings made
  by the statements before it stay in the kernel's namespace, so a cell over the namespace
  returns the namespace it leaves behind together with the exception, if any.
\<close>

datatype py_error =
    SyntaxError
  | NameError string
  | KeyError string
  | ValueError string
  | ClientError string
  | BotoCoreError string


section \<open>Data preparation cells\<close>

subsection \<open>Dataframes\<close>

text \<open>
  The notebook describes its data as mixed, some columns numeric, some categorical. A column
  is numeric (\<^verbatim>\<open>int64\<close> or \<^verbatim>\<open>float64\<close>; no cell of the notebook looks at the values, so
  their type \<open>'n\<close> is a parameter), an indicator column (\<^verbatim>\<open>uint8\<close>, what
  \<^verbatim>\<open>get_dummies\<close> produces), or an \<^verbatim>\<open>object\<close> column of strings, with \<open>None\<close> for a
  missing value. A dataframe is its row labels and its labelled columns, in order; duplicate
  column labels are possible.
\<close>

datatype 'n column =
    Numeric "'n list"
  | Indicator "nat list"
  | Object "string option list"

datatype 'n cell_value = Num 'n | UInt8 nat | Str string | NaN

record 'n dataframe =
  index :: "nat list"
  columns :: "(string \<times> 'n column) list"

fun col_length :: "'n column \<Rightarrow> nat" where
  "col_length (Numeric xs) = length xs"
| "col_length (Indicator xs) = length xs"
| "col_length (Object xs) = length xs"

fun is_object :: "'n column \<Rightarrow> bool" where
  "is_object (Object vs) = True"
| "is_object c = False"

fun is_number :: "'n cell_value \<Rightarrow> bool" where
  "is_number (Num x) = True"
| "is_number (UInt8 b) = True"
| "is_number v = False"

text \<open>The value of a column at a row position.\<close>

fun cell :: "'n column \<Rightarrow> nat \<Rightarrow> 'n cell_value" where
  "cell (Numeric xs) i = Num (xs ! i)"
| "cell (Indicator xs) i = UInt8 (xs ! i)"
| "cell (Object xs) i = (case xs ! i of None \<Rightarrow> NaN | Some s \<Rightarrow> Str s)"

text \<open>
  Every column of a dataframe has one value per row label. (A frame that \<^verbatim>\<open>read_csv\<close>
  returns moreover has the row labels \<open>0, 1, ...\<close>, a \<^verbatim>\<open>RangeIndex\<close>, and distinct column
  labels.)
\<close>

definition frame_ok :: "'n dataframe \<Rightarrow> bool" where
  "frame_ok df = list_all (\<lambda>(name, c). col_length c = length (index df)) (columns df)"

text \<open>The rows of a dataframe: each row's label with its values.\<close>

definition frame_row :: "'n dataframe \<Rightarrow> nat \<Rightarrow> nat \<times> 'n cell_value list" where
  "frame_row df p = (index df ! p, map (\<lambda>(name, c). cell c p) (columns df))"

definition frame_rows :: "'n dataframe \<Rightarrow> (nat \<times> 'n cell_value list) list" where
  "frame_rows df = map (frame_row df) [0..<length (index df)]"

subsection \<open>The pandas operations the cells call\<close>

text \<open>\<^verbatim>\<open>df.take(locs)\<close>: the rows at the given positions, in that order.\<close>

fun take_column :: "nat list \<Rightarrow> 'n column \<Rightarrow> 'n column" where
  "take_column locs (Numeric xs) = Numeric (map ((!) xs) locs)"
| "take_column locs (Indicator xs) = Indicator (map ((!) xs) locs)"
| "take_column locs (Object xs) = Object (map ((!) xs) locs)"

definition take_rows :: "nat list \<Rightarrow> 'n dataframe \<Rightarrow> 'n dataframe" where
  "take_rows locs df =
     \<lparr>index = map ((!) (index df)) locs,
      columns = map (\<lambda>(name, c). (name, take_column locs c)) (columns df)\<rparr>"

text \<open>
  \<^verbatim>\<open>df[key]\<close>: the column labelled \<^verbatim>\<open>key\<close> (all of them, as a frame, when the label is
  repeated); \<^verbatim>\<open>KeyError\<close> when there is none.
\<close>

definition getitem :: "'n dataframe \<Rightarrow> string \<Rightarrow> py_error + 'n dataframe" where
  "getitem df key =
     (case filter (\<lambda>(name, c). name = key) (columns df) of
        [] \<Rightarrow> Inl (KeyError key)
      | cs \<Rightarrow> Inr (df\<lparr>columns := cs\<rparr>))"

text \<open>
  \<^verbatim>\<open>df.drop(labels, axis=1)\<close>: \<^verbatim>\<open>KeyError\<close> when a label is not a column label;
  otherwise the frame without the columns so labelled. The notebook never passes
  \<^verbatim>\<open>inplace=True\<close>: the call builds a new frame and returns it, and the frame it is called
  on stays as it is. The result of \<open>drop_axis1\<close> is the frame the method was called on, as
  it is after the call, and the frame returned.
\<close>

definition drop_columns :: "string list \<Rightarrow> 'n dataframe \<Rightarrow> py_error + 'n dataframe" where
  "drop_columns labels df =
     (if \<exists>l \<in> set labels. l \<notin> fst ` set (columns df) then Inl (KeyError ''not found in axis'')
      else Inr (df\<lparr>columns := filter (\<lambda>(name, c). name \<notin> set labels) (columns df)\<rparr>))"

definition drop_axis1 ::
  "string list \<Rightarrow> 'n dataframe \<Rightarrow> py_error + ('n dataframe \<times> 'n dataframe)" where
  "drop_axis1 labels df =
     (case drop_columns labels df of
        Inl e \<Rightarrow> Inl e
      | Inr dropped \<Rightarrow> Inr (df, dropped))"

text \<open>
  \<^verbatim>\<open>df.drop(labels)\<close> on the rows: \<^verbatim>\<open>KeyError\<close> when a label is not a row label;
  otherwise the rows whose label is not among \<^verbatim>\<open>labels\<close>.
\<close>

definition drop_rows :: "nat list \<Rightarrow> 'n dataframe \<Rightarrow> py_error + 'n dataframe" where
  "drop_rows labels df =
     (if \<exists>l \<in> set labels. l \<notin> set (index df) then Inl (KeyError ''not found in axis'')
      else Inr (take_rows
                  (filter (\<lambda>i. index df ! i \<notin> set labels) [0..<length (index df)]) df))"

text \<open>
  \<^verbatim>\<open>pd.concat([a, b], axis=1)\<close> of two frames over the same row labels (the only use the
  notebook makes of it): the columns of \<^verbatim>\<open>a\<close>, then those of \<^verbatim>\<open>b\<close>.
\<close>

definition concat_axis1 :: "'n dataframe \<Rightarrow> 'n dataframe \<Rightarrow> 'n dataframe" where
  "concat_axis1 a b = \<lparr>index = index a, columns = columns a @ columns b\<rparr>"

text \<open>
  \<^verbatim>\<open>pd.get_dummies(data)\<close>: the columns that are not of dtype \<^verbatim>\<open>object\<close> come first, as
  they are; then, for each \<^verbatim>\<open>object\<close> column in order, one indicator column per value that
  occurs in it, the values sorted, labelled \<^verbatim>\<open>column_value\<close>. A missing value has no
  indicator column: its row is 0 in all of them.
\<close>

definition levels :: "string option list \<Rightarrow> string list" where
  "levels vs = sorted_list_of_set (Option.these (set vs))"

definition dummy :: "string option list \<Rightarrow> string \<Rightarrow> nat list" where
  "dummy vs l = map (\<lambda>v. if v = Some l then 1 else 0) vs"

definition get_dummies_1d :: "string \<Rightarrow> string option list \<Rightarrow> (string \<times> 'n column) list" where
  "get_dummies_1d prefix vs =
     map (\<lambda>l. (prefix @ ''_'' @ l, Indicator (dummy vs l))) (levels vs)"

fun encode :: "string \<times> 'n column \<Rightarrow> (string \<times> 'n column) list" where
  "encode (name, Object vs) = get_dummies_1d name vs"
| "encode (name, c) = []"

definition get_dummies :: "'n dataframe \<Rightarrow> 'n dataframe" where
  "get_dummies data =
     data\<lparr>columns := filter (\<lambda>(name, c). \<not> is_object c) (columns data) @
                       concat (map encode (columns data))\<rparr>"

subsection \<open>The size of a 70 percent sample\<close>

text \<open>
  \<^verbatim>\<open>sample(frac=0.7)\<close> takes \<^verbatim>\<open>round(frac * axis_length)\<close> rows, computed in double
  precision. The double \<^verbatim>\<open>0.7\<close> is \<open>6305039478318694 / 2^53\<close>. Doubles that are multiples of
  \<open>2^-53\<close> are written by their numerator: \<open>round53\<close> rounds a numerator to 53 significant
  bits, ties to even, which is how the conversion of the row count to a double and the
  multiplication round. Python's \<^verbatim>\<open>round\<close> of a double is the nearest integer, ties to even.
  (Beyond \<open>2^1024\<close> rows the conversion would overflow; no frame is that long.)
\<close>

definition round_half_even :: "nat \<Rightarrow> nat \<Rightarrow> nat" where
  "round_half_even a d =
     (let q = a div d; r = a mod d in
      if 2 * r < d then q
      else if d < 2 * r then q + 1
      else if even q then q else q + 1)"

definition round53 :: "nat \<Rightarrow> nat" where
  "round53 a =
     (let b = floorlog 2 a in
      if b \<le> 53 then a else round_half_even a (2 ^ (b - 53)) * 2 ^ (b - 53))"

definition sample_size :: "nat \<Rightarrow> nat" where
  "sample_size axis_length =
     round_half_even (round53 (6305039478318694 * round53 axis_length)) (2 ^ 53)"

subsection \<open>Sampling\<close>

text \<open>
  numpy's generator is a parameter: \<^verbatim>\<open>RandomState(seed)\<close> makes a generator state from a
  seed, and \<^verbatim>\<open>permutation(n)\<close> of a state is an ordering of \<open>0, ..., n - 1\<close>.
  \<^verbatim>\<open>df.sample(frac=0.7, random_state=r)\<close> draws from \<^verbatim>\<open>RandomState(r)\<close> when \<^verbatim>\<open>r\<close> is
  an integer and from numpy's global generator, whose state differs from run to run, when
  \<^verbatim>\<open>r\<close> is \<^verbatim>\<open>None\<close>. It takes the rows at the first \<^verbatim>\<open>n\<close> positions of the permutation.
\<close>

record 'g numpy_random =
  RandomState :: "nat \<Rightarrow> 'g"
  permutation :: "'g \<Rightarrow> nat \<Rightarrow> nat list"

definition sample ::
  "'g numpy_random \<Rightarrow> 'g \<Rightarrow> nat option \<Rightarrow> 'n dataframe \<Rightarrow> py_error + 'n dataframe" where
  "sample np global_state random_state df =
     (let axis_length = length (index df);
          n = sample_size axis_length;
          rs = (case random_state of
                  None \<Rightarrow> global_state
                | Some seed \<Rightarrow> RandomState np seed) in
      if axis_length < n
      then Inl (ValueError ''Cannot take a larger sample than population'')
      else Inr (take_rows (take n (permutation np rs axis_length)) df))"

subsection \<open>Writing a CSV file\<close>

text \<open>
  \<^verbatim>\<open>df.to_csv(path, index=..., header=...)\<close>: the file as its lines, a line as its fields.
  With \<^verbatim>\<open>header=True\<close> the first line holds the column labels; with \<^verbatim>\<open>index=True\<close> every
  line starts with the row label (an empty label in the header line).
\<close>

datatype 'n csv_field = Header string | RowLabel nat | Value "'n cell_value"

definition to_csv :: "bool \<Rightarrow> bool \<Rightarrow> 'n dataframe \<Rightarrow> 'n csv_field list list" where
  "to_csv with_index with_header df =
     (if with_header
      then [(if with_index then [Header []] else []) @
            map (\<lambda>(name, c). Header name) (columns df)]
      else []) @
     map (\<lambda>i. (if with_index then [RowLabel (index df ! i)] else []) @
               map (\<lambda>(name, c). Value (cell c i)) (columns df))
       [0..<length (index df)]"

subsection \<open>The cells\<close>

text \<open>
  The data cells are modelled as functions of the one variable they read; a cell that raises
  returns the exception.

  \<^verbatim>\<open>model_data = pd.get_dummies(data)\<close> is \<open>get_dummies\<close> itself. The next cell:
  \<^verbatim>\<open>model_data = pd.concat([model_data['y_yes'],
                          model_data.drop(['y_no', 'y_yes'], axis=1)], axis=1)
  train_data = model_data.sample(frac=0.7, random_state=1729)
  validation_data = model_data.drop(train_data.index)
  train_data.to_csv('train.csv', index=False, header=False)
  validation_data.to_csv('validation.csv', index=False, header=False)\<close>
\<close>

definition label_first :: "'n dataframe \<Rightarrow> py_error + 'n dataframe" where
  "label_first model_data0 =
     (case getitem model_data0 ''y_yes'' of
        Inl e \<Rightarrow> Inl e
      | Inr y_yes \<Rightarrow>
      (case drop_axis1 [''y_no'', ''y_yes''] model_data0 of
        Inl e \<Rightarrow> Inl e
      | Inr (model_data1, rest) \<Rightarrow> Inr (concat_axis1 y_yes rest)))"

record 'n prepared =
  model_data :: "'n dataframe"
  train_data :: "'n dataframe"
  validation_data :: "'n dataframe"
  train_csv :: "'n csv_field list list"
  validation_csv :: "'n csv_field list list"

definition reformat_and_split ::
  "'g numpy_random \<Rightarrow> 'g \<Rightarrow> 'n dataframe \<Rightarrow> py_error + 'n prepared" where
  "reformat_and_split np global_state model_data0 =
     (case label_first model_data0 of
        Inl e \<Rightarrow> Inl e
      | Inr md \<Rightarrow>
      (case sample np global_state (Some 1729) md of
        Inl e \<Rightarrow> Inl e
      | Inr train \<Rightarrow>
      (case drop_rows (index train) md of
        Inl e \<Rightarrow> Inl e
      | Inr validation \<Rightarrow>
          Inr \<lparr>model_data = md, train_data = train, validation_data = validation,
               train_csv = to_csv False False train,
               validation_csv = to_csv False False validation\<rparr>)))"

definition first_preparation ::
  "'g numpy_random \<Rightarrow> 'g \<Rightarrow> 'n dataframe \<Rightarrow> py_error + 'n prepared" where
  "first_preparation np global_state data = reformat_and_split np global_state (get_dummies data)"

text \<open>
  The cleaning cell,
  \<^verbatim>\<open>clean_data = data.drop(['duration', 'emp.var.rate', 'cons.price.idx', 'cons.conf.idx',
                          'euribor3m', 'nr.employed'], axis=1)\<close>,
  as a function from \<^verbatim>\<open>data\<close> to the values of \<^verbatim>\<open>data\<close> and \<^verbatim>\<open>clean_data\<close> after it.
\<close>

definition forecast_columns :: "string list" where
  "forecast_columns =
     [''duration'', ''emp.var.rate'', ''cons.price.idx'', ''cons.conf.idx'', ''euribor3m'',
      ''nr.employed'']"

definition clean_cell :: "'n dataframe \<Rightarrow> py_error + ('n dataframe \<times> 'n dataframe)" where
  "clean_cell data = drop_axis1 forecast_columns data"

text \<open>
  The second reformatting cell starts with
  \<^verbatim>\<open>clean_model_data = pd.get_dummies(clean_data)\<close> and goes on as the first one, on
  \<^verbatim>\<open>clean_model_data\<close>, \<^verbatim>\<open>clean_train_data\<close> and \<^verbatim>\<open>clean_validation_data\<close>.
\<close>

definition second_preparation ::
  "'g numpy_random \<Rightarrow> 'g \<Rightarrow> 'n dataframe \<Rightarrow> py_error + 'n prepared" where
  "second_preparation np global_state data =
     (case clean_cell data of
        Inl e \<Rightarrow> Inl e
      | Inr (data1, clean_data) \<Rightarrow>
          reformat_and_split np global_state (get_dummies clean_data))"

subsection \<open>A small dataset\<close>

text \<open>
  Four customers with an age, a call duration and the five economic indicators (numeric), a
  marital status and the label (categorical); and a generator whose permutations count down.
\<close>

definition bank :: "int dataframe" where
  "bank =
     \<lparr>index = [0, 1, 2, 3],
      columns =
        [(''age'', Numeric [56, 57, 37, 40]),
         (''marital'', Object [Some ''married'', Some ''single'', Some ''married'',
                               Some ''divorced'']),
         (''duration'', Numeric [261, 149, 226, 151]),
         (''emp.var.rate'', Numeric [1, 1, 1, 1]),
         (''cons.price.idx'', Numeric [93, 93, 93, 93]),
         (''cons.conf.idx'', Numeric [-36, -36, -36, -36]),
         (''euribor3m'', Numeric [4, 4, 4, 4]),
         (''nr.employed'', Numeric [5191, 5191, 5191, 5191]),
         (''y'', Object [Some ''no'', Some ''yes'', Some ''no'', Some ''no''])]\<rparr>"

definition countdown :: "nat numpy_random" where
  "countdown = \<lparr>RandomState = (\<lambda>seed. seed), permutation = (\<lambda>rs n. rev [0..<n])\<rparr>"

text \<open>A generator whose permutation depends on its state: it rotates by it.\<close>

definition rotating :: "nat numpy_random" where
  "rotating = \<lparr>RandomState = (\<lambda>seed. seed), permutation = (\<lambda>rs n. rotate rs [0..<n])\<rparr>"


section \<open>Hyperparameter tuning cells\<close>

subsection \<open>The SDK objects the cells construct\<close>

text \<open>
  \<^verbatim>\<open>ContinuousParameter(min_value, max_value)\<close> and
  \<^verbatim>\<open>IntegerParameter(min_value, max_value)\<close> of \<^verbatim>\<open>sagemaker.tuner\<close>; a search space is
  a Python dict from hyperparameter names to such ranges.
\<close>

datatype parameter_range =
    ContinuousParameter rat rat
  | IntegerParameter int int

type_synonym search_space = "(string \<times> parameter_range) list"

datatype WarmStartTypes = IDENTICAL_DATA_AND_ALGORITHM | TRANSFER_LEARNING

text \<open>
  A Python value that may be \<^verbatim>\<open>None\<close> is an option: a tuner's
  \<^verbatim>\<open>_current_job_name\<close> is \<^verbatim>\<open>None\<close> until \<^verbatim>\<open>fit\<close> has named a job.
\<close>

type_synonym py_str = "string option"

record warm_start_obj =
  warm_start_type :: WarmStartTypes
  parents :: "py_str set"

text \<open>
  \<^verbatim>\<open>WarmStartConfig(warm_start_type, parents)\<close> refuses an empty parent collection with a
  \<^verbatim>\<open>ValueError\<close> and otherwise stores the type and \<^verbatim>\<open>set(parents)\<close>.
\<close>

definition WarmStartConfig :: "WarmStartTypes \<Rightarrow> py_str set \<Rightarrow> py_error + warm_start_obj" where
  "WarmStartConfig ty ps =
     (if ps = {} then Inl (ValueError ''Invalid parents argument'')
      else Inr \<lparr>warm_start_type = ty, parents = ps\<rparr>)"

text \<open>
  The tuner object. \<^verbatim>\<open>HyperparameterTuner(estimator, objective_metric_name,
  hyperparameter_ranges, objective_type='Maximize', max_jobs=1, max_parallel_jobs=1,
  base_tuning_job_name=None, warm_start_config=None)\<close> stores its arguments, refuses an empty
  search space with a \<^verbatim>\<open>ValueError\<close>, and starts with no current job. The estimator
  (\<^verbatim>\<open>xgb\<close>) is opaque to every cell modelled here, hence a type parameter.
\<close>

record 'e tuner_obj =
  estimator :: 'e
  metric_name :: string
  ranges :: search_space
  objective_type :: string
  max_jobs :: int
  max_parallel_jobs :: int
  base_tuning_job_name :: py_str
  warm_start :: "warm_start_obj option"
  current_job_name :: py_str

definition HyperparameterTuner ::
  "'e \<Rightarrow> string \<Rightarrow> search_space \<Rightarrow> string \<Rightarrow> int \<Rightarrow> int \<Rightarrow> py_str \<Rightarrow> warm_start_obj option
     \<Rightarrow> py_error + 'e tuner_obj" where
  "HyperparameterTuner est metric hr otype mj mpj base ws =
     (if hr = [] then Inl (ValueError ''Need to specify hyperparameter ranges'')
      else Inr \<lparr>estimator = est, metric_name = metric, ranges = hr, objective_type = otype,
                max_jobs = mj, max_parallel_jobs = mpj, base_tuning_job_name = base,
                warm_start = ws, current_job_name = None\<rparr>)"

text \<open>
  \<^verbatim>\<open>tuner.fit(inputs, include_cls_metadata=False)\<close> first makes up the job's name (the
  tuner's base name or, without one, the name of the algorithm's image, followed by a
  timestamp) and records it in the tuner as \<^verbatim>\<open>_current_job_name\<close>; then it asks the
  service to create a tuning job of that name from the tuner's configuration and the input
  channels. It does not wait for the job. The name made up and the service's answer (an
  exception, or none) are parameters. The tuner keeps the name also when the service refuses.
\<close>

record ('e, 'i) sagemaker =
  job_name_for :: "'e tuner_obj \<Rightarrow> string"
  create_tuning_job :: "'e tuner_obj \<Rightarrow> (string \<times> 'i) list \<Rightarrow> py_error option"

definition fit ::
  "('e, 'i) sagemaker \<Rightarrow> 'e tuner_obj \<Rightarrow> (string \<times> 'i) list \<Rightarrow> 'e tuner_obj \<times> py_error option"
  where
  "fit sdk t inputs =
     (let t1 = t\<lparr>current_job_name := Some (job_name_for sdk t)\<rparr>
      in (t1, create_tuning_job sdk t1 inputs))"

subsection \<open>The kernel namespace\<close>

text \<open>
  The variables the tuning cells read and write. A field is \<open>None\<close> while the variable is
  unbound (reading it raises \<^verbatim>\<open>NameError\<close>). \<open>imported\<close> holds the names bound by the
  \<^verbatim>\<open>from sagemaker.tuner import ...\<close> statements. The S3 input channels are opaque. A cell
  returns the namespace it leaves behind and the exception that ended it, if any.
\<close>

record ('e, 'i) namespace =
  imported :: "string set"
  xgb :: "'e option"
  s3_input_train :: "'i option"
  s3_input_validation :: "'i option"
  hyperparameter_ranges :: "search_space option"
  objective_metric_name :: "string option"
  tuner :: "'e tuner_obj option"
  tuning_job_name :: "py_str option"
  parent_tuning_job_name :: "py_str option"
  warm_start_config :: "warm_start_obj option"
  tuner_warm_start :: "'e tuner_obj option"

type_synonym ('e, 'i) cell_result = "('e, 'i) namespace \<times> py_error option"

subsection \<open>The search space and the first tuner: the cell left to the reader\<close>

text \<open>
  The cell reads
  \<^verbatim>\<open>from sagemaker.tuner import IntegerParameter, ContinuousParameter, HyperparameterTuner
  # TODO set the 'hyperparameter_ranges' variable ...
  hyperparameter_ranges = #TODO
  objective_metric_name = 'validation:auc'
  # TODO create the HyperparameterTuner with the following arguments: ...
  tuner = #TODO\<close>
  The right-hand sides of two assignments are missing: the reader is asked to type them. The
  two expressions are therefore arguments of the model, each a function of the namespace it
  is evaluated in; \<open>None\<close> stands for an expression left as shipped. With a right-hand side
  missing the cell does not compile: Python raises \<^verbatim>\<open>SyntaxError\<close> before running any
  statement of the cell, the import included.
\<close>

type_synonym ('e, 'i, 'a) expr = "('e, 'i) namespace \<Rightarrow> py_error + 'a"

definition set_up_tuner ::
  "('e, 'i, search_space) expr option \<Rightarrow> ('e, 'i, 'e tuner_obj) expr option
     \<Rightarrow> ('e, 'i) namespace \<Rightarrow> ('e, 'i) cell_result" where
  "set_up_tuner todo_ranges todo_tuner ns =
     (case todo_ranges of
        None \<Rightarrow> (ns, Some SyntaxError)
      | Some ranges_expr \<Rightarrow>
      (case todo_tuner of
        None \<Rightarrow> (ns, Some SyntaxError)
      | Some tuner_expr \<Rightarrow>
      (let ns1 = ns\<lparr>imported := imported ns \<union>
                   {''IntegerParameter'', ''ContinuousParameter'', ''HyperparameterTuner''}\<rparr> in
       case ranges_expr ns1 of
         Inl e \<Rightarrow> (ns1, Some e)
       | Inr hr \<Rightarrow>
       (let ns2 = ns1\<lparr>hyperparameter_ranges := Some hr\<rparr>;
            ns3 = ns2\<lparr>objective_metric_name := Some ''validation:auc''\<rparr> in
        case tuner_expr ns3 of
          Inl e \<Rightarrow> (ns3, Some e)
        | Inr t \<Rightarrow> (ns3\<lparr>tuner := Some t\<rparr>, None)))))"

text \<open>
  The expressions the cell's comments ask the reader for. The first is a dictionary with
  \<^verbatim>\<open>'eta'\<close> a \<^verbatim>\<open>ContinuousParameter\<close> from 0 to 1, \<^verbatim>\<open>'alpha'\<close> one from 0 to 2,
  \<^verbatim>\<open>'min_child_weight'\<close> one from 1 to 10 and \<^verbatim>\<open>'max_depth'\<close> an
  \<^verbatim>\<open>IntegerParameter\<close> from 1 to 10. The second is a \<^verbatim>\<open>HyperparameterTuner\<close> of
  \<^verbatim>\<open>xgb\<close>, the \<^verbatim>\<open>objective_metric_name\<close>, \<^verbatim>\<open>objective_type = 'Maximize'\<close>, 5
  \<^verbatim>\<open>max_jobs\<close> and 3 \<^verbatim>\<open>max_parallel_jobs\<close> (and the search space, which the constructor
  requires). They are in the comments only, not in the code. \<open>tuner_expression\<close> is the call
  \<^verbatim>\<open>HyperparameterTuner(xgb, objective_metric_name, hyperparameter_ranges,
  objective_type=..., max_jobs=..., max_parallel_jobs=...)\<close>.
\<close>

definition commented_ranges :: "('e, 'i, search_space) expr" where
  "commented_ranges ns =
     Inr [(''eta'', ContinuousParameter 0 1),
          (''alpha'', ContinuousParameter 0 2),
          (''min_child_weight'', ContinuousParameter 1 10),
          (''max_depth'', IntegerParameter 1 10)]"

definition tuner_expression :: "string \<Rightarrow> int \<Rightarrow> int \<Rightarrow> ('e, 'i, 'e tuner_obj) expr" where
  "tuner_expression otype mj mpj ns =
     (if ''HyperparameterTuner'' \<notin> imported ns then Inl (NameError ''HyperparameterTuner'')
      else case xgb ns of
        None \<Rightarrow> Inl (NameError ''xgb'')
      | Some est \<Rightarrow>
      (case objective_metric_name ns of
        None \<Rightarrow> Inl (NameError ''objective_metric_name'')
      | Some metric \<Rightarrow>
      (case hyperparameter_ranges ns of
        None \<Rightarrow> Inl (NameError ''hyperparameter_ranges'')
      | Some hr \<Rightarrow> HyperparameterTuner est metric hr otype mj mpj None None)))"

definition commented_tuner :: "('e, 'i, 'e tuner_obj) expr" where
  "commented_tuner = tuner_expression ''Maximize'' 5 3"

subsection \<open>Launching the first job\<close>

text \<open>
  \<^verbatim>\<open>tuner.fit({'train': s3_input_train, 'validation': s3_input_validation},
            include_cls_metadata=False)\<close>
\<close>

definition launch_first_job ::
  "('e, 'i) sagemaker \<Rightarrow> ('e, 'i) namespace \<Rightarrow> ('e, 'i) cell_result" where
  "launch_first_job sdk ns =
     (case tuner ns of
        None \<Rightarrow> (ns, Some (NameError ''tuner''))
      | Some t \<Rightarrow>
      (case s3_input_train ns of
        None \<Rightarrow> (ns, Some (NameError ''s3_input_train''))
      | Some tr \<Rightarrow>
      (case s3_input_validation ns of
        None \<Rightarrow> (ns, Some (NameError ''s3_input_validation''))
      | Some va \<Rightarrow>
      (case fit sdk t [(''train'', tr), (''validation'', va)] of
        (t1, err) \<Rightarrow> (ns\<lparr>tuner := Some t1\<rparr>, err)))))"

subsection \<open>The status-polling cells\<close>









subsection \<open>Capturing the first job's name and configuring the warm start\<close>

text \<open>
  First statement of the metrics cell: \<^verbatim>\<open>tuning_job_name = tuner._current_job_name\<close>.
  The statements after it in that cell only bind \<^verbatim>\<open>tuner_parent_metrics\<close> and
  \<^verbatim>\<open>df_parent\<close> (the results table that is plotted); whether or not they raise, this binding
  stays.
\<close>

definition assign_tuning_job_name :: "('e, 'i) namespace \<Rightarrow> ('e, 'i) cell_result" where
  "assign_tuning_job_name ns =
     (case tuner ns of
        None \<Rightarrow> (ns, Some (NameError ''tuner''))
      | Some t \<Rightarrow> (ns\<lparr>tuning_job_name := Some (current_job_name t)\<rparr>, None))"

text \<open>
  \<^verbatim>\<open>from sagemaker.tuner import WarmStartConfig, WarmStartTypes
  parent_tuning_job_name = tuning_job_name
  warm_start_config = WarmStartConfig(WarmStartTypes.TRANSFER_LEARNING,
                                      parents={parent_tuning_job_name})\<close>
\<close>

definition configure_warm_start :: "('e, 'i) namespace \<Rightarrow> ('e, 'i) cell_result" where
  "configure_warm_start ns =
     (let ns1 = ns\<lparr>imported := imported ns \<union> {''WarmStartConfig'', ''WarmStartTypes''}\<rparr> in
      case tuning_job_name ns1 of
        None \<Rightarrow> (ns1, Some (NameError ''tuning_job_name''))
      | Some j \<Rightarrow>
          (let ns2 = ns1\<lparr>parent_tuning_job_name := Some j\<rparr> in
           case WarmStartConfig TRANSFER_LEARNING {j} of
             Inl e \<Rightarrow> (ns2, Some e)
           | Inr w \<Rightarrow> (ns2\<lparr>warm_start_config := Some w\<rparr>, None)))"

text \<open>
  \<^verbatim>\<open>tuner_warm_start = HyperparameterTuner(xgb, objective_metric_name, hyperparameter_ranges,
      objective_type='Maximize', max_jobs=20, max_parallel_jobs=2,
      base_tuning_job_name='warmstart', warm_start_config=warm_start_config)\<close>
  Python looks the callee up first and then evaluates the arguments from left to right.
\<close>

definition construct_tuner_warm_start :: "('e, 'i) namespace \<Rightarrow> ('e, 'i) cell_result" where
  "construct_tuner_warm_start ns =
     (if ''HyperparameterTuner'' \<notin> imported ns then (ns, Some (NameError ''HyperparameterTuner''))
      else case xgb ns of
        None \<Rightarrow> (ns, Some (NameError ''xgb''))
      | Some est \<Rightarrow>
      (case objective_metric_name ns of
        None \<Rightarrow> (ns, Some (NameError ''objective_metric_name''))
      | Some metric \<Rightarrow>
      (case hyperparameter_ranges ns of
        None \<Rightarrow> (ns, Some (NameError ''hyperparameter_ranges''))
      | Some hr \<Rightarrow>
      (case warm_start_config ns of
        None \<Rightarrow> (ns, Some (NameError ''warm_start_config''))
      | Some w \<Rightarrow>
      (case HyperparameterTuner est metric hr ''Maximize'' 20 2 (Some ''warmstart'') (Some w) of
        Inl e \<Rightarrow> (ns, Some e)
      | Inr t \<Rightarrow> (ns\<lparr>tuner_warm_start := Some t\<rparr>, None))))))"

text \<open>
  \<^verbatim>\<open>tuner_warm_start.fit({'train': s3_input_train, 'validation': s3_input_validation},
                       include_cls_metadata=False)\<close>
\<close>

definition launch_warm_start_job ::
  "('e, 'i) sagemaker \<Rightarrow> ('e, 'i) namespace \<Rightarrow> ('e, 'i) cell_result" where
  "launch_warm_start_job sdk ns =
     (case tuner_warm_start ns of
        None \<Rightarrow> (ns, Some (NameError ''tuner_warm_start''))
      | Some t \<Rightarrow>
      (case s3_input_train ns of
        None \<Rightarrow> (ns, Some (NameError ''s3_input_train''))
      | Some tr \<Rightarrow>
      (case s3_input_validation ns of
        None \<Rightarrow> (ns, Some (NameError ''s3_input_validation''))
      | Some va \<Rightarrow>
      (case fit sdk t [(''train'', tr), (''validation'', va)] of
        (t1, err) \<Rightarrow> (ns\<lparr>tuner_warm_start := Some t1\<rparr>, err)))))"

subsection \<open>The cells in the notebook's order\<close>

text \<open>
  After the first job is launched, the notebook captures its name, configures the warm start
  and constructs the second tuner. The cells in between (plots, data cleaning, the upload of
  the cleaned files) bind none of the variables these three cells read.
\<close>

definition prepare_warm_start :: "('e, 'i) namespace \<Rightarrow> ('e, 'i) cell_result" where
  "prepare_warm_start ns =
     construct_tuner_warm_start (fst (configure_warm_start (fst (assign_tuning_job_name ns))))"

subsection \<open>Concrete kernel states\<close>

text \<open>
  A namespace as the cells before the tuning section leave it (estimator and input channels
  bound, nothing else), an SDK that names a tuner's job after its base name and a service
  that accepts every job, and the namespaces the cells produce from them when the reader
  types the expressions the comments describe, or a tuner that minimizes instead; and the
  namespace once the warm-start job has been launched as well.
\<close>

definition fresh_namespace :: "(unit, unit) namespace" where
  "fresh_namespace =
     \<lparr>imported = {}, xgb = Some (), s3_input_train = Some (), s3_input_validation = Some (),
      hyperparameter_ranges = None, objective_metric_name = None, tuner = None,
      tuning_job_name = None, parent_tuning_job_name = None, warm_start_config = None,
      tuner_warm_start = None\<rparr>"

definition accepting_sdk :: "(unit, unit) sagemaker" where
  "accepting_sdk =
     \<lparr>job_name_for = (\<lambda>t. case base_tuning_job_name t of
                               None \<Rightarrow> ''xgboost-190101-0000''
                             | Some base \<Rightarrow> base @ ''-190101-0100''),
      create_tuning_job = (\<lambda>t inputs. None)\<rparr>"

definition instructed_namespace :: "(unit, unit) namespace" where
  "instructed_namespace =
     fst (set_up_tuner (Some commented_ranges) (Some commented_tuner) fresh_namespace)"

definition launched_namespace :: "(unit, unit) namespace" where
  "launched_namespace = fst (launch_first_job accepting_sdk instructed_namespace)"

definition warm_start_namespace :: "(unit, unit) namespace" where
  "warm_start_namespace = fst (prepare_warm_start launched_namespace)"

definition minimizing_namespace :: "(unit, unit) namespace" where
  "minimizing_namespace =
     fst (set_up_tuner (Some commented_ranges) (Some (tuner_expression ''Minimize'' 5 3))
            fresh_namespace)"






section \<open>Properties of the data preparation cells\<close>

subsection \<open>The sample size\<close>

text \<open>
  Rounding to the nearest multiple of \<open>d\<close> moves a number by at most \<open>d / 2\<close>; rounding to
  53 significant bits moves it by at most its \<open>2^-53\<close>-th part. Below \<open>2^49\<close> rows the two
  roundings of \<^verbatim>\<open>round(0.7 * n)\<close> together stay within a half of \<open>7 n / 10\<close>.
\<close>

lemma round_half_even_near:
  assumes "0 < d"
  shows "2 * (round_half_even a d * d) \<le> 2 * a + d \<and> 2 * a \<le> 2 * (round_half_even a d * d) + d"
proof -
  define q r where "q = a div d" and "r = a mod d"
  have a: "a = q * d + r" by (simp add: q_def r_def)
  have r: "r < d" using assms by (simp add: r_def)
  have "round_half_even a d = q \<and> 2 * r \<le> d \<or> round_half_even a d = q + 1 \<and> d \<le> 2 * r"
    by (auto simp: round_half_even_def Let_def q_def r_def)
  then show ?thesis
    using a r by (auto simp: algebra_simps)
qed

lemma round53_near:
  "2 ^ 53 * round53 a \<le> 2 ^ 53 * a + a \<and> 2 ^ 53 * a \<le> 2 ^ 53 * round53 a + a"
proof (cases "floorlog 2 a \<le> 53")
  case True
  then show ?thesis by (simp add: round53_def)
next
  case False
  define s where "s = floorlog 2 a - 53"
  have b: "floorlog 2 a = s + 53" using False by (simp add: s_def)
  have "0 < a" using False by (auto simp: floorlog_def split: if_splits)
  from floorlog_bounds [OF this, of 2] have "(2::nat) ^ (s + 52) \<le> a"
    by (simp add: b add.commute)
  then have lo: "2 ^ 52 * 2 ^ s \<le> a"
    by (simp add: power_add mult.commute)
  define R where "R = round_half_even a (2 ^ s) * 2 ^ s"
  have Rr: "round53 a = R"
    using False by (simp add: round53_def R_def s_def Let_def)
  from round_half_even_near [of "2 ^ s" a]
  have n: "2 * R \<le> 2 * a + 2 ^ s" "2 * a \<le> 2 * R + 2 ^ s"
    by (simp_all add: R_def)
  define t :: nat where "t = 2 ^ s"
  have "2 ^ 52 * t \<le> a" "2 * R \<le> 2 * a + t" "2 * a \<le> 2 * R + t"
    using lo n by (simp_all add: t_def)
  then have "2 ^ 53 * R \<le> 2 ^ 53 * a + a \<and> 2 ^ 53 * a \<le> 2 ^ 53 * R + a"
    by simp
  then show ?thesis by (simp add: Rr)
qed

lemma round53_small: "n < 2 ^ 53 \<Longrightarrow> round53 n = n"
  by (simp add: round53_def floorlog_le_iff)

lemma sample_size_near:
  assumes "n < 2 ^ 49"
  shows "10 * sample_size n \<le> 7 * n + 5 \<and> 7 * n \<le> 10 * sample_size n + 5"
proof -
  define a where "a = 6305039478318694 * n"
  define R where "R = round53 a"
  define k where "k = sample_size n"
  have n: "round53 n = n"
    using assms by (intro round53_small) simp
  have k: "k = round_half_even R (2 ^ 53)"
    by (simp add: k_def sample_size_def n R_def a_def)
  from round53_near [of a]
  have 1: "9007199254740992 * R \<le> 9007199254740992 * a + a"
          "9007199254740992 * a \<le> 9007199254740992 * R + a"
    by (simp_all add: R_def)
  from round_half_even_near [of "2 ^ 53" R]
  have 2: "2 * (k * 9007199254740992) \<le> 2 * R + 9007199254740992"
          "2 * R \<le> 2 * (k * 9007199254740992) + 9007199254740992"
    by (simp_all add: k)
  have 3: "n < 562949953421312" using assms by simp
  have "10 * k \<le> 7 * n + 5 \<and> 7 * n \<le> 10 * k + 5"
    using 1 2 3 unfolding a_def by linarith
  then show ?thesis by (simp add: k_def)
qed

lemma sample_size_le: "n < 2 ^ 49 \<Longrightarrow> sample_size n \<le> n"
proof (cases "n = 0")
  case True
  then show ?thesis by (simp add: sample_size_def round53_def round_half_even_def floorlog_def)
next
  case False
  assume "n < 2 ^ 49"
  from sample_size_near [OF this] False show ?thesis by linarith
qed

lemma sample_size_4: "sample_size 4 = 3"
  using sample_size_near [of 4] by simp

subsection \<open>Rows and columns under the frame operations\<close>

lemma no_before_yes: "''no'' < ''yes''"
  by (simp add: less_char_def)

lemma levels_binary:
  assumes "set ys = {Some ''yes'', Some ''no''}"
  shows "levels ys = [''no'', ''yes'']"
proof -
  have "Option.these (set ys) = {''yes'', ''no''}"
    using assms by simp
  moreover have "sorted_list_of_set {''yes'', ''no''} =
      insort ''yes'' (sorted_list_of_set ({''no''} - {''yes''}))"
    by (rule sorted_list_of_set_insert_remove) simp
  moreover have "{''no''} - {''yes''} = {''no''}"
    by simp
  ultimately show ?thesis
    using no_before_yes by (simp add: levels_def)
qed

lemma length_dummy [simp]: "length (dummy vs l) = length vs"
  by (simp add: dummy_def)

lemma col_length_take_column [simp]: "col_length (take_column locs c) = length locs"
  by (cases c) simp_all

lemma is_object_take_column [simp]: "is_object (take_column locs c) = is_object c"
  by (cases c) simp_all

lemma cell_take_column: "i < length locs \<Longrightarrow> cell (take_column locs c) i = cell c (locs ! i)"
  by (cases c) simp_all

lemma cell_is_number: "\<not> is_object c \<Longrightarrow> is_number (cell c i)"
  by (cases c) simp_all

lemma index_take_rows [simp]: "index (take_rows locs df) = map ((!) (index df)) locs"
  by (simp add: take_rows_def)

lemma names_take_rows [simp]: "map fst (columns (take_rows locs df)) = map fst (columns df)"
  by (simp add: take_rows_def case_prod_unfold comp_def)

lemma columns_take_rows:
  "columns (take_rows locs df) = map (\<lambda>nc. (fst nc, take_column locs (snd nc))) (columns df)"
  by (simp add: take_rows_def case_prod_unfold)

lemma frame_ok_take_rows [simp]: "frame_ok (take_rows locs df)"
  by (simp add: frame_ok_def take_rows_def list_all_iff case_prod_unfold)

lemma index_get_dummies [simp]: "index (get_dummies data) = index data"
  by (simp add: get_dummies_def)

lemma encode_subset:
  "(name, Object vs) \<in> set (columns data)
     \<Longrightarrow> set (get_dummies_1d name vs) \<subseteq> set (columns (get_dummies data))"
  by (force simp: get_dummies_def)

lemma encode_not_object: "nc \<in> set (encode x) \<Longrightarrow> \<not> is_object (snd nc)"
  by (cases x rule: encode.cases) (auto simp: get_dummies_1d_def)

lemma encode_length:
  "nc \<in> set (encode x) \<Longrightarrow> col_length (snd nc) = col_length (snd x)"
  by (cases x rule: encode.cases) (auto simp: get_dummies_1d_def)

lemma get_dummies_not_object:
  "nc \<in> set (columns (get_dummies data)) \<Longrightarrow> \<not> is_object (snd nc)"
  by (auto simp: get_dummies_def dest: encode_not_object)

lemma frame_ok_get_dummies: "frame_ok data \<Longrightarrow> frame_ok (get_dummies data)"
  by (auto simp: frame_ok_def get_dummies_def list_all_iff dest!: encode_length)

subsection \<open>The split\<close>

lemma frame_rows_eq: "frame_rows df = map (frame_row df) [0..<length (index df)]"
  by (simp add: frame_rows_def)

lemma frame_rows_take_rows: "frame_rows (take_rows locs df) = map (frame_row df) locs"
proof (rule nth_equalityI)
  show "length (frame_rows (take_rows locs df)) = length (map (frame_row df) locs)"
    by (simp add: frame_rows_def)
next
  fix i assume "i < length (frame_rows (take_rows locs df))"
  then have i: "i < length locs"
    by (simp add: frame_rows_def)
  then show "frame_rows (take_rows locs df) ! i = map (frame_row df) locs ! i"
    by (simp add: frame_rows_def frame_row_def columns_take_rows case_prod_unfold comp_def
        cell_take_column)
qed

lemma label_first_ok:
  assumes "label_first md0 = Inr md"
  shows "index md = index md0"
    and "columns md = filter (\<lambda>(name, c). name = ''y_yes'') (columns md0) @
           filter (\<lambda>(name, c). name \<notin> set [''y_no'', ''y_yes'']) (columns md0)"
    and "filter (\<lambda>(name, c). name = ''y_yes'') (columns md0) \<noteq> []"
  using assms
  by (auto simp: label_first_def getitem_def drop_axis1_def drop_columns_def concat_axis1_def
      split: list.splits sum.splits if_splits)

lemma label_first_succeeds:
  assumes "''y_yes'' \<in> fst ` set (columns md0)" and "''y_no'' \<in> fst ` set (columns md0)"
  shows "\<exists>md. label_first md0 = Inr md"
proof -
  from assms(1) obtain c where "(''y_yes'', c) \<in> set (columns md0)"
    by auto
  then have "(''y_yes'', c) \<in> set (filter (\<lambda>(name, c). name = ''y_yes'') (columns md0))"
    by simp
  then have "filter (\<lambda>(name, c). name = ''y_yes'') (columns md0) \<noteq> []"
    by (metis empty_iff empty_set)
  then show ?thesis
    using assms
    by (auto simp: label_first_def getitem_def drop_axis1_def drop_columns_def
        split: list.splits)
qed

lemma sample_ok:
  assumes "sample np g (Some seed) df = Inr t"
  shows "t = take_rows (take (sample_size (length (index df)))
               (permutation np (RandomState np seed) (length (index df)))) df"
    and "sample_size (length (index df)) \<le> length (index df)"
  using assms by (auto simp: sample_def Let_def split: if_splits)

lemma drop_rows_ok:
  assumes "drop_rows labels df = Inr v"
  shows "v = take_rows (filter (\<lambda>i. index df ! i \<notin> set labels) [0..<length (index df)]) df"
  using assms by (auto simp: drop_rows_def split: if_splits)

lemma split_locs:
  assumes "distinct locs" and "set locs \<subseteq> {0..<n}"
  shows "mset locs + mset (filter (\<lambda>i. i \<notin> set locs) [0..<n]) = mset [0..<n]"
proof -
  have "set (filter (\<lambda>i. i \<in> set locs) [0..<n]) = set locs"
    using assms(2) by auto
  moreover have "distinct (filter (\<lambda>i. i \<in> set locs) [0..<n])"
    by simp
  ultimately have "mset (filter (\<lambda>i. i \<in> set locs) [0..<n]) = mset locs"
    using assms(1) set_eq_iff_mset_eq_distinct by blast
  then show ?thesis
    by (metis mset_filter multiset_partition)
qed

lemma labels_of_positions:
  assumes "distinct idx" and "set locs \<subseteq> {0..<length idx}"
  shows "filter (\<lambda>i. idx ! i \<notin> set (map ((!) idx) locs)) [0..<length idx] =
         filter (\<lambda>i. i \<notin> set locs) [0..<length idx]"
proof (rule filter_cong [OF refl])
  fix i assume "i \<in> set [0..<length idx]"
  then have i: "i < length idx" by simp
  have "idx ! i \<in> (!) idx ` set locs \<longleftrightarrow> i \<in> set locs"
  proof
    assume "idx ! i \<in> (!) idx ` set locs"
    then obtain p where p: "p \<in> set locs" "idx ! i = idx ! p" by auto
    then have "p < length idx" using assms(2) by auto
    with p i assms(1) show "i \<in> set locs"
      by (simp add: nth_eq_iff_index_eq)
  qed auto
  then show "(idx ! i \<notin> set (map ((!) idx) locs)) = (i \<notin> set locs)"
    by simp
qed

lemma train_validation_partition:
  fixes md :: "'n dataframe"
  assumes perm: "mset (permutation np (RandomState np 1729) (length (index md))) =
                   mset [0..<length (index md)]"
      and dist: "distinct (index md)"
      and small: "length (index md) < 2 ^ 49"
  shows "\<exists>train validation.
           sample np g (Some 1729) md = Inr train \<and>
           drop_rows (index train) md = Inr validation \<and>
           mset (frame_rows train) + mset (frame_rows validation) = mset (frame_rows md) \<and>
           set (index train) \<inter> set (index validation) = {} \<and>
           set (index train) \<union> set (index validation) = set (index md) \<and>
           distinct (index train) \<and> distinct (index validation) \<and>
           length (index train) = sample_size (length (index md))"
proof -
  define n where "n = length (index md)"
  define p where "p = permutation np (RandomState np 1729) n"
  define k where "k = sample_size n"
  define locs where "locs = take k p"
  define rest where "rest = filter (\<lambda>i. i \<notin> set locs) [0..<n]"
  define train where "train = take_rows locs md"
  define validation where "validation = take_rows rest md"
  have mp: "mset p = mset [0..<n]"
    using perm by (simp add: p_def n_def)
  have dp: "distinct p"
    using mp by (metis distinct_upt mset_eq_imp_distinct_iff)
  have sp: "set p = {0..<n}"
    using mp by (metis mset_eq_setD set_upt)
  have lp: "length p = n"
    using mp by (metis length_upt mset_eq_length minus_nat.diff_0)
  have kn: "k \<le> n"
    using small by (simp add: k_def n_def sample_size_le)
  have dl: "distinct locs"
    using dp by (simp add: locs_def)
  have sl: "set locs \<subseteq> {0..<n}"
    using sp set_take_subset [of k p] by (simp add: locs_def)
  have ll: "length locs = k"
    using kn lp by (simp add: locs_def)
  have s: "sample np g (Some 1729) md = Inr train"
    using kn by (simp add: sample_def Let_def train_def locs_def k_def p_def n_def)
  have it: "index train = map ((!) (index md)) locs"
    by (simp add: train_def)
  have inj: "inj_on ((!) (index md)) {0..<n}"
    using dist by (auto simp: inj_on_def n_def nth_eq_iff_index_eq)
  have present: "\<not> (\<exists>l \<in> set (index train). l \<notin> set (index md))"
    using sl by (auto simp: it n_def)
  have r: "filter (\<lambda>i. index md ! i \<notin> set (index train)) [0..<length (index md)] = rest"
    using labels_of_positions [OF dist, of locs] sl
    by (simp add: it rest_def n_def)
  have d: "drop_rows (index train) md = Inr validation"
    using present r by (simp add: drop_rows_def validation_def)
  have iv: "index validation = map ((!) (index md)) rest"
    by (simp add: validation_def)
  have sr: "set rest = {0..<n} - set locs"
    by (auto simp: rest_def)
  have "mset locs + mset rest = mset [0..<n]"
    using split_locs [OF dl sl] by (simp only: rest_def)
  then have "mset (map (frame_row md) locs) + mset (map (frame_row md) rest) =
             mset (map (frame_row md) [0..<n])"
    by (metis image_mset_union mset_map)
  moreover have "frame_rows train = map (frame_row md) locs"
    by (simp only: train_def frame_rows_take_rows)
  moreover have "frame_rows validation = map (frame_row md) rest"
    by (simp only: validation_def frame_rows_take_rows)
  moreover have "frame_rows md = map (frame_row md) [0..<n]"
    by (simp only: frame_rows_eq n_def)
  ultimately have rows:
    "mset (frame_rows train) + mset (frame_rows validation) = mset (frame_rows md)"
    by (simp only:)
  have disj: "set (index train) \<inter> set (index validation) = {}"
    using inj sl sr by (auto simp: it iv inj_on_def)
  have "set locs \<union> set rest = {0..<n}"
    using sl sr by auto
  then have "(!) (index md) ` set locs \<union> (!) (index md) ` set rest = (!) (index md) ` {0..<n}"
    by (metis image_Un)
  also have "\<dots> = set (index md)"
    by (auto simp: n_def set_conv_nth)
  finally have un: "set (index train) \<union> set (index validation) = set (index md)"
    by (simp add: it iv)
  have dt: "distinct (index train)"
    using dl inj sl by (auto simp: it distinct_map intro: inj_on_subset)
  have dv: "distinct (index validation)"
    using inj sr by (auto simp: iv rest_def distinct_map intro: inj_on_subset)
  have "length (index train) = sample_size (length (index md))"
    using ll by (simp add: it k_def n_def)
  with s d rows disj un dt dv show ?thesis
    by blast
qed

subsection \<open>What a reformatting cell that ran to its end has done\<close>

lemma reformat_and_split_ok:
  assumes "reformat_and_split np g md0 = Inr out"
  shows "label_first md0 = Inr (model_data out)"
    and "sample np g (Some 1729) (model_data out) = Inr (train_data out)"
    and "drop_rows (index (train_data out)) (model_data out) = Inr (validation_data out)"
    and "train_csv out = to_csv False False (train_data out)"
    and "validation_csv out = to_csv False False (validation_data out)"
  using assms by (auto simp: reformat_and_split_def split: sum.splits)

lemma clean_cell_ok:
  assumes "clean_cell data = Inr (d, c)"
  shows "d = data" and "index c = index data"
    and "columns c = filter (\<lambda>(name, c). name \<notin> set forecast_columns) (columns data)"
  using assms
  by (auto simp: clean_cell_def drop_axis1_def drop_columns_def split: if_splits)

lemma second_preparation_ok:
  assumes "second_preparation np g data = Inr out"
  shows "\<exists>c. clean_cell data = Inr (data, c) \<and>
             reformat_and_split np g (get_dummies c) = Inr out"
  using assms
  by (auto simp: second_preparation_def split: sum.splits dest: clean_cell_ok(1))

lemma to_csv_plain:
  "to_csv False False df =
     map (\<lambda>i. map (\<lambda>nc. Value (cell (snd nc) i)) (columns df)) [0..<length (index df)]"
  by (simp add: to_csv_def case_prod_unfold)

lemma partition_of_split:
  fixes md0 :: "'n dataframe"
  assumes run: "reformat_and_split np g md0 = Inr out"
      and perm: "mset (permutation np (RandomState np 1729) (length (index md0))) =
                   mset [0..<length (index md0)]"
      and dist: "distinct (index md0)"
      and small: "length (index md0) < 2 ^ 49"
  shows "mset (frame_rows (train_data out)) + mset (frame_rows (validation_data out)) =
           mset (frame_rows (model_data out)) \<and>
         set (index (train_data out)) \<inter> set (index (validation_data out)) = {} \<and>
         \<bar>10 * int (length (index (train_data out))) -
           7 * int (length (index (model_data out)))\<bar> \<le> 5"
proof -
  note r = reformat_and_split_ok [OF run]
  have i: "index (model_data out) = index md0"
    using label_first_ok(1) [OF r(1)] .
  from train_validation_partition [of np "model_data out" g] perm dist small i
  obtain train validation where
    t: "sample np g (Some 1729) (model_data out) = Inr train"
       "drop_rows (index train) (model_data out) = Inr validation"
       "mset (frame_rows train) + mset (frame_rows validation) = mset (frame_rows (model_data out))"
       "set (index train) \<inter> set (index validation) = {}"
       "length (index train) = sample_size (length (index md0))"
    by auto
  have e: "train = train_data out" "validation = validation_data out"
    using t(1,2) r(2,3) by simp_all
  from sample_size_near [OF small] t(5)
  have "\<bar>10 * int (length (index train)) - 7 * int (length (index md0))\<bar> \<le> 5"
    by linarith
  with t(3,4) e i show ?thesis by simp
qed

lemma csv_of_split:
  fixes md0 :: "'n dataframe"
  assumes run: "reformat_and_split np g md0 = Inr out"
      and num: "\<forall>nc \<in> set (columns md0). \<not> is_object (snd nc)"
  shows "fst (hd (columns (model_data out))) = ''y_yes''"
    and "hd (columns (model_data out)) =
           hd (filter (\<lambda>(name, c). name = ''y_yes'') (columns md0))"
    and "map fst (columns (train_data out)) = map fst (columns (model_data out))"
    and "map fst (columns (validation_data out)) = map fst (columns (model_data out))"
    and "train_csv out =
           map (\<lambda>i. map (\<lambda>nc. Value (cell (snd nc) i)) (columns (train_data out)))
             [0..<length (index (train_data out))]"
    and "validation_csv out =
           map (\<lambda>i. map (\<lambda>nc. Value (cell (snd nc) i)) (columns (validation_data out)))
             [0..<length (index (validation_data out))]"
    and "\<And>line f. line \<in> set (train_csv out) \<Longrightarrow> f \<in> set line
           \<Longrightarrow> \<exists>v. f = Value v \<and> is_number v"
    and "\<And>line f. line \<in> set (validation_csv out) \<Longrightarrow> f \<in> set line
           \<Longrightarrow> \<exists>v. f = Value v \<and> is_number v"
proof -
  note r = reformat_and_split_ok [OF run]
  note l = label_first_ok [OF r(1)]
  obtain y ys where y: "filter (\<lambda>(name, c). name = ''y_yes'') (columns md0) = y # ys"
    using l(3) by (cases "filter (\<lambda>(name, c). name = ''y_yes'') (columns md0)") auto
  then have "y \<in> set (filter (\<lambda>(name, c). name = ''y_yes'') (columns md0))"
    by simp
  then have fy: "fst y = ''y_yes''"
    by auto
  show h: "hd (columns (model_data out)) =
           hd (filter (\<lambda>(name, c). name = ''y_yes'') (columns md0))"
    using l(2) y by simp
  then show "fst (hd (columns (model_data out))) = ''y_yes''"
    using y fy by simp
  have sub: "set (columns (model_data out)) \<subseteq> set (columns md0)"
    using l(2) by auto
  have t: "train_data out = take_rows (take (sample_size (length (index (model_data out))))
               (permutation np (RandomState np 1729) (length (index (model_data out)))))
               (model_data out)"
    using sample_ok(1) [OF r(2)] .
  have v: "validation_data out =
      take_rows (filter (\<lambda>i. index (model_data out) ! i \<notin> set (index (train_data out)))
                   [0..<length (index (model_data out))]) (model_data out)"
    using drop_rows_ok [OF r(3)] .
  show "map fst (columns (train_data out)) = map fst (columns (model_data out))"
    by (subst t) simp
  show "map fst (columns (validation_data out)) = map fst (columns (model_data out))"
    by (subst v) simp
  show tc: "train_csv out =
           map (\<lambda>i. map (\<lambda>nc. Value (cell (snd nc) i)) (columns (train_data out)))
             [0..<length (index (train_data out))]"
    by (simp only: r(4) to_csv_plain)
  show vc: "validation_csv out =
           map (\<lambda>i. map (\<lambda>nc. Value (cell (snd nc) i)) (columns (validation_data out)))
             [0..<length (index (validation_data out))]"
    by (simp only: r(5) to_csv_plain)
  have nt: "\<not> is_object (snd nc)" if "nc \<in> set (columns (train_data out))" for nc
  proof -
    from that obtain nc0 where "nc0 \<in> set (columns (model_data out))"
        "is_object (snd nc) = is_object (snd nc0)"
      by (subst (asm) t) (auto simp: columns_take_rows)
    then show ?thesis using sub num by blast
  qed
  have nv: "\<not> is_object (snd nc)" if "nc \<in> set (columns (validation_data out))" for nc
  proof -
    from that obtain nc0 where "nc0 \<in> set (columns (model_data out))"
        "is_object (snd nc) = is_object (snd nc0)"
      by (subst (asm) v) (auto simp: columns_take_rows)
    then show ?thesis using sub num by blast
  qed
  show "\<exists>v. f = Value v \<and> is_number v"
    if "line \<in> set (train_csv out)" "f \<in> set line" for line f
    using that nt by (auto simp: tc cell_is_number)
  show "\<exists>v. f = Value v \<and> is_number v"
    if "line \<in> set (validation_csv out)" "f \<in> set line" for line f
    using that nv by (auto simp: vc cell_is_number)
qed

lemma map_positions: "map (\<lambda>i. f (locs ! i)) [0..<length locs] = map f locs"
  by (rule nth_equalityI) simp_all

lemma to_csv_take_rows:
  "to_csv False False (take_rows locs df) =
     map (\<lambda>p. map (\<lambda>(name, c). Value (cell c p)) (columns df)) locs"
proof -
  have "to_csv False False (take_rows locs df) =
      map (\<lambda>i. map (\<lambda>(name, c). Value (cell c (locs ! i))) (columns df)) [0..<length locs]"
    by (simp add: to_csv_plain columns_take_rows comp_def cell_take_column case_prod_unfold)
  then show ?thesis
    by (simp only: map_positions [of "\<lambda>p. map (\<lambda>(name, c). Value (cell c p)) (columns df)"])
qed

lemma frames_of_split:
  fixes md0 :: "'n dataframe"
  assumes run: "reformat_and_split np g md0 = Inr out"
  shows "index (model_data out) = index md0"
    and "train_data out =
           take_rows (take (sample_size (length (index md0)))
                        (permutation np (RandomState np 1729) (length (index md0))))
             (model_data out)"
    and "validation_data out =
           take_rows (filter (\<lambda>i. index md0 ! i \<notin> set (index (train_data out)))
                        [0..<length (index md0)])
             (model_data out)"
proof -
  note r = reformat_and_split_ok [OF run]
  show i: "index (model_data out) = index md0"
    using label_first_ok(1) [OF r(1)] .
  show "train_data out =
           take_rows (take (sample_size (length (index md0)))
                        (permutation np (RandomState np 1729) (length (index md0))))
             (model_data out)"
    using sample_ok(1) [OF r(2)] by (simp only: i)
  show "validation_data out =
           take_rows (filter (\<lambda>i. index md0 ! i \<notin> set (index (train_data out)))
                        [0..<length (index md0)])
             (model_data out)"
    using drop_rows_ok [OF r(3)] by (simp only: i)
qed

lemma model_data_names:
  assumes "label_first md0 = Inr md"
  shows "\<exists>rest. map fst (columns md) = ''y_yes'' # rest \<and> ''y_no'' \<notin> set rest"
proof -
  note l = label_first_ok [OF assms]
  obtain y ys where y: "filter (\<lambda>(name, c). name = ''y_yes'') (columns md0) = y # ys"
    using l(3) by (cases "filter (\<lambda>(name, c). name = ''y_yes'') (columns md0)") auto
  then have "y \<in> set (filter (\<lambda>(name, c). name = ''y_yes'') (columns md0))"
    by simp
  then have "fst y = ''y_yes''"
    by auto
  then have "map fst (columns md) = ''y_yes'' # map fst (tl (columns md))"
    using l(2) y by simp
  moreover have "''y_no'' \<notin> set (map fst (columns md))"
    using l(2) by auto
  ultimately have "map fst (columns md) = ''y_yes'' # map fst (tl (columns md)) \<and>
      ''y_no'' \<notin> set (map fst (tl (columns md)))"
    by (metis list.set_intros(2))
  then show ?thesis ..
qed

lemma dummy_rows:
  assumes "set ys = {Some ''yes'', Some ''no''}" and "i < length ys"
  shows "dummy ys ''yes'' ! i \<in> {0, 1} \<and> dummy ys ''no'' ! i \<in> {0, 1} \<and>
         dummy ys ''yes'' ! i + dummy ys ''no'' ! i = 1 \<and>
         (dummy ys ''yes'' ! i = 1) = (ys ! i = Some ''yes'')"
proof -
  have "ys ! i \<in> set ys" using assms(2) by simp
  then have "ys ! i = Some ''yes'' \<or> ys ! i = Some ''no''"
    using assms(1) by auto
  then show ?thesis
    using assms(2) by (auto simp: dummy_def)
qed

lemma label_dummies:
  assumes "set ys = {Some ''yes'', Some ''no''}"
  shows "get_dummies_1d ''y'' ys =
           [(''y_no'', Indicator (dummy ys ''no'')), (''y_yes'', Indicator (dummy ys ''yes''))]"
  using levels_binary [OF assms] by (simp add: get_dummies_1d_def)

lemma label_column_first:
  fixes d :: "'n dataframe"
  assumes l: "label_first (get_dummies d) = Inr md"
      and y: "(''y'', Object ys) \<in> set (columns d)"
      and binary: "set ys = {Some ''yes'', Some ''no''}"
      and one: "length (filter (\<lambda>(name, c). name = ''y_yes'') (columns (get_dummies d))) = 1"
  shows "hd (columns md) = (''y_yes'', Indicator (dummy ys ''yes''))"
proof -
  let ?f = "filter (\<lambda>(name, c). name = ''y_yes'') (columns (get_dummies d))"
  have "set (get_dummies_1d ''y'' ys) \<subseteq> set (columns (get_dummies d))"
    using encode_subset [OF y] .
  then have "(''y_yes'', Indicator (dummy ys ''yes'')) \<in> set (columns (get_dummies d))"
    by (simp add: label_dummies [OF binary])
  then have m: "(''y_yes'', Indicator (dummy ys ''yes'')) \<in> set ?f"
    by simp
  from one obtain x where x: "?f = [x]"
    by (cases ?f) auto
  with m have "?f = [(''y_yes'', Indicator (dummy ys ''yes''))]"
    by (metis empty_iff empty_set set_ConsD)
  then show ?thesis
    using label_first_ok(2) [OF l] by simp
qed

lemma label_kept_by_cleaning:
  assumes "clean_cell data = Inr (d, c)" and "(''y'', col) \<in> set (columns data)"
  shows "(''y'', col) \<in> set (columns c)"
  using assms(2) clean_cell_ok(3) [OF assms(1)] by (simp add: forecast_columns_def)

lemma clean_cell_succeeds:
  assumes "set forecast_columns \<subseteq> fst ` set (columns data)"
  shows "clean_cell data =
           Inr (data, data\<lparr>columns :=
                  filter (\<lambda>(name, c). name \<notin> set forecast_columns) (columns data)\<rparr>)"
  using assms by (auto simp: clean_cell_def drop_axis1_def drop_columns_def)

lemma reformat_and_split_succeeds:
  fixes d :: "'n dataframe"
  assumes y: "(''y'', Object ys) \<in> set (columns d)"
      and binary: "set ys = {Some ''yes'', Some ''no''}"
      and perm: "mset (permutation np (RandomState np 1729) (length (index d))) =
                   mset [0..<length (index d)]"
      and dist: "distinct (index d)"
      and small: "length (index d) < 2 ^ 49"
  shows "\<exists>out. reformat_and_split np g (get_dummies d) = Inr out"
proof -
  have "set (get_dummies_1d ''y'' ys) \<subseteq> set (columns (get_dummies d))"
    using encode_subset [OF y] .
  then have "(''y_no'', Indicator (dummy ys ''no'')) \<in> set (columns (get_dummies d))"
            "(''y_yes'', Indicator (dummy ys ''yes'')) \<in> set (columns (get_dummies d))"
    by (simp_all add: label_dummies [OF binary])
  then have "''y_yes'' \<in> fst ` set (columns (get_dummies d))"
            "''y_no'' \<in> fst ` set (columns (get_dummies d))"
    by force+
  from label_first_succeeds [OF this] obtain md where md: "label_first (get_dummies d) = Inr md"
    by blast
  have i: "index md = index d"
    using label_first_ok(1) [OF md] by simp
  from train_validation_partition [of np md g] perm dist small i
  obtain train validation where
    "sample np g (Some 1729) md = Inr train" "drop_rows (index train) md = Inr validation"
    by auto
  with md show ?thesis
    by (simp add: reformat_and_split_def)
qed

subsection \<open>The small dataset\<close>

lemma bank_label:
  "(''y'', Object [Some ''no'', Some ''yes'', Some ''no'', Some ''no'']) \<in> set (columns bank)"
  "set [Some ''no'', Some ''yes'', Some ''no'', Some ''no''] = {Some ''yes'', Some ''no''}"
  by (auto simp: bank_def)

lemma bank_rows:
  "mset (permutation countdown (RandomState countdown 1729) (length (index bank))) =
     mset [0..<length (index bank)]"
  "distinct (index bank)"
  "length (index bank) < 2 ^ 49"
  by (simp_all add: countdown_def bank_def)

lemma bank_frame_ok: "frame_ok bank"
  by (simp add: frame_ok_def bank_def)

lemma bank_forecast_columns: "set forecast_columns \<subseteq> fst ` set (columns bank)"
  by (simp add: forecast_columns_def bank_def)

lemma bank_first: "\<exists>out. first_preparation countdown g bank = Inr out"
  unfolding first_preparation_def
  using reformat_and_split_succeeds [OF bank_label bank_rows] .

lemma bank_second: "\<exists>out. second_preparation countdown g bank = Inr out"
proof -
  let ?c = "bank\<lparr>columns :=
              filter (\<lambda>(name, c). name \<notin> set forecast_columns) (columns bank)\<rparr>"
  have c: "clean_cell bank = Inr (bank, ?c)"
    using clean_cell_succeeds [OF bank_forecast_columns] .
  have y: "(''y'', Object [Some ''no'', Some ''yes'', Some ''no'', Some ''no''])
             \<in> set (columns ?c)"
    using label_kept_by_cleaning [OF c bank_label(1)] .
  have "\<exists>out. reformat_and_split countdown g (get_dummies ?c) = Inr out"
    using reformat_and_split_succeeds [OF y bank_label(2)] bank_rows by simp
  then show ?thesis
    by (simp add: second_preparation_def c)
qed

lemma bank_levels: "levels [Some ''no'', Some ''yes'', Some ''no'', Some ''no''] = [''no'', ''yes'']"
  using levels_binary [OF bank_label(2)] .

lemma bank_one_label:
  "length (filter (\<lambda>(name, c). name = ''y_yes'') (columns (get_dummies bank))) = 1"
  "length (filter (\<lambda>(name, c). name = ''y_yes'')
     (columns (get_dummies (bank\<lparr>columns :=
        filter (\<lambda>(name, c). name \<notin> set forecast_columns) (columns bank)\<rparr>)))) = 1"
  by (simp_all add: get_dummies_def bank_def forecast_columns_def get_dummies_1d_def filter_map
      comp_def bank_levels)

lemma bank_split:
  "take (sample_size (length (index bank)))
     (permutation countdown (RandomState countdown 1729) (length (index bank))) = [3, 2, 1]"
  "filter (\<lambda>i. index bank ! i \<notin> set (map ((!) (index bank)) [3, 2, 1]))
     [0..<length (index bank)] = [0]"
proof -
  have n: "length (index bank) = 4"
    by (simp add: bank_def)
  have u: "[0..<4] = [0, 1, 2, 3]"
    by (simp add: upt_rec)
  show "take (sample_size (length (index bank)))
     (permutation countdown (RandomState countdown 1729) (length (index bank))) = [3, 2, 1]"
    by (simp add: n sample_size_4 countdown_def u)
  have "index bank = [0, 1, 2, 3]"
    by (simp add: bank_def)
  then show "filter (\<lambda>i. index bank ! i \<notin> set (map ((!) (index bank)) [3, 2, 1]))
     [0..<length (index bank)] = [0]"
    by (simp add: u)
qed

subsection \<open>The claims about the data cells\<close>

text \<open>
  C1. When the values of the label column \<^verbatim>\<open>y\<close> are \<^verbatim>\<open>'yes'\<close> and \<^verbatim>\<open>'no'\<close>,
  \<^verbatim>\<open>get_dummies\<close> turns it into exactly two indicator columns, \<^verbatim>\<open>y_no\<close> and
  \<^verbatim>\<open>y_yes\<close>, both among the columns of the encoded frame (of \<^verbatim>\<open>data\<close>, and of
  \<^verbatim>\<open>clean_data\<close>). In every row of the frame each of them is 0 or 1, exactly one of them
  is 1, and \<^verbatim>\<open>y_yes\<close> is 1 exactly when \<^verbatim>\<open>y\<close> was \<^verbatim>\<open>'yes'\<close>.
\<close>

theorem label_one_hot:
  fixes data :: "'n dataframe"
  assumes "(''y'', Object ys) \<in> set (columns data)"
      and "set ys = {Some ''yes'', Some ''no''}"
      and "frame_ok data"
  shows "get_dummies_1d ''y'' ys =
           [(''y_no'', Indicator (dummy ys ''no'') :: 'n column),
            (''y_yes'', Indicator (dummy ys ''yes''))] \<and>
         (''y_no'', Indicator (dummy ys ''no'')) \<in> set (columns (get_dummies data)) \<and>
         (''y_yes'', Indicator (dummy ys ''yes'')) \<in> set (columns (get_dummies data)) \<and>
         (\<forall>d c. clean_cell data = Inr (d, c) \<longrightarrow>
            (''y_no'', Indicator (dummy ys ''no'')) \<in> set (columns (get_dummies c)) \<and>
            (''y_yes'', Indicator (dummy ys ''yes'')) \<in> set (columns (get_dummies c))) \<and>
         length (dummy ys ''yes'') = length (index data) \<and>
         length (dummy ys ''no'') = length (index data) \<and>
         (\<forall>i < length (index data).
            dummy ys ''yes'' ! i \<in> {0, 1} \<and> dummy ys ''no'' ! i \<in> {0, 1} \<and>
            dummy ys ''yes'' ! i + dummy ys ''no'' ! i = 1 \<and>
            (dummy ys ''yes'' ! i = 1) = (ys ! i = Some ''yes''))"
proof -
  note two = label_dummies [OF assms(2)]
  have rows: "length ys = length (index data)"
    using assms(1,3) by (auto simp: frame_ok_def list_all_iff)
  have in_frame:
    "(''y_no'', Indicator (dummy ys ''no'')) \<in> set (columns (get_dummies d)) \<and>
     (''y_yes'', Indicator (dummy ys ''yes'')) \<in> set (columns (get_dummies d))"
    if "(''y'', Object ys) \<in> set (columns d)" for d :: "'n dataframe"
    using encode_subset [OF that] by (simp add: two)
  have cleaned:
    "(''y_no'', Indicator (dummy ys ''no'')) \<in> set (columns (get_dummies c)) \<and>
     (''y_yes'', Indicator (dummy ys ''yes'')) \<in> set (columns (get_dummies c))"
    if "clean_cell data = Inr (d, c)" for d c
    using in_frame [OF label_kept_by_cleaning [OF that assms(1)]] .
  show ?thesis
    using two in_frame [OF assms(1)] cleaned dummy_rows [OF assms(2)]
    by (simp only: length_dummy rows [symmetric]) blast
qed

theorem label_one_hot_witness:
  "(''y_no'', Indicator [1, 0, 1, 1]) \<in> set (columns (get_dummies bank)) \<and>
   (''y_yes'', Indicator [0, 1, 0, 0]) \<in> set (columns (get_dummies bank))"
  using label_one_hot [OF bank_label bank_frame_ok]
  by (simp add: dummy_def)

text \<open>
  C2. Whenever a reformatting cell runs to its end (the first on the encoding of \<^verbatim>\<open>data\<close>,
  the second on the encoding of \<^verbatim>\<open>clean_data\<close>), the reordered frame has the encoded
  frame's columns labelled \<^verbatim>\<open>y_yes\<close> first (there is one), followed by all its columns
  labelled neither \<^verbatim>\<open>y_no\<close> nor \<^verbatim>\<open>y_yes\<close>, in order; the training and the validation
  frame are the rows of that frame at the sampled and at the remaining positions; and each
  exported file has one line per row of its frame and nothing else (no header line), each line
  holding the values of that row, one field per column (no row label), every field a number.
  So the exported frames have a column labelled \<^verbatim>\<open>y_yes\<close> first and none labelled
  \<^verbatim>\<open>y_no\<close>. When the label column \<^verbatim>\<open>y\<close> takes the values \<^verbatim>\<open>'yes'\<close> and \<^verbatim>\<open>'no'\<close>
  and the encoded frame has one column labelled \<^verbatim>\<open>y_yes\<close>, the first column is the
  label's indicator: the first field of every line is 1 if the row's \<^verbatim>\<open>y\<close> was
  \<^verbatim>\<open>'yes'\<close> and 0 otherwise. This holds for \<^verbatim>\<open>train.csv\<close> and \<^verbatim>\<open>validation.csv\<close> as
  written by the first and by the second reformatting cell.
\<close>

theorem exported_csv_format:
  fixes data d :: "'n dataframe"
  assumes run: "first_preparation np g data = Inr out \<and> d = data \<or>
                second_preparation np g data = Inr out \<and> clean_cell data = Inr (data, d)"
  shows "\<exists>locs_t locs_v.
           locs_t = take (sample_size (length (index data)))
                      (permutation np (RandomState np 1729) (length (index data))) \<and>
           locs_v = filter (\<lambda>i. index data ! i \<notin> set (map ((!) (index data)) locs_t))
                      [0..<length (index data)] \<and>
           index (model_data out) = index data \<and>
           filter (\<lambda>(name, c). name = ''y_yes'') (columns (get_dummies d)) \<noteq> [] \<and>
           columns (model_data out) =
             filter (\<lambda>(name, c). name = ''y_yes'') (columns (get_dummies d)) @
             filter (\<lambda>(name, c). name \<notin> set [''y_no'', ''y_yes'']) (columns (get_dummies d)) \<and>
           train_data out = take_rows locs_t (model_data out) \<and>
           validation_data out = take_rows locs_v (model_data out) \<and>
           train_csv out =
             map (\<lambda>p. map (\<lambda>(name, c). Value (cell c p)) (columns (model_data out))) locs_t \<and>
           validation_csv out =
             map (\<lambda>p. map (\<lambda>(name, c). Value (cell c p)) (columns (model_data out))) locs_v \<and>
           train_csv out =
             map (\<lambda>i. map (\<lambda>nc. Value (cell (snd nc) i)) (columns (train_data out)))
               [0..<length (index (train_data out))] \<and>
           validation_csv out =
             map (\<lambda>i. map (\<lambda>nc. Value (cell (snd nc) i)) (columns (validation_data out)))
               [0..<length (index (validation_data out))] \<and>
           (\<exists>rest. map fst (columns (train_data out)) = ''y_yes'' # rest \<and>
                   map fst (columns (validation_data out)) = ''y_yes'' # rest \<and>
                   ''y_no'' \<notin> set rest) \<and>
           (\<forall>line \<in> set (train_csv out). \<forall>f \<in> set line. \<exists>v. f = Value v \<and> is_number v) \<and>
           (\<forall>line \<in> set (validation_csv out). \<forall>f \<in> set line.
              \<exists>v. f = Value v \<and> is_number v) \<and>
           (\<forall>ys. (''y'', Object ys) \<in> set (columns d) \<and>
                 set ys = {Some ''yes'', Some ''no''} \<and>
                 length (filter (\<lambda>(name, c). name = ''y_yes'') (columns (get_dummies d))) = 1
                 \<longrightarrow>
                 hd (columns (model_data out)) = (''y_yes'', Indicator (dummy ys ''yes'')) \<and>
                 map hd (train_csv out) =
                   map (\<lambda>p. Value (UInt8 (dummy ys ''yes'' ! p))) locs_t \<and>
                 map hd (validation_csv out) =
                   map (\<lambda>p. Value (UInt8 (dummy ys ''yes'' ! p))) locs_v)"
proof -
  let ?enc = "get_dummies d"
  let ?md = "model_data out"
  define n where "n = length (index data)"
  define locs_t where
    "locs_t = take (sample_size n) (permutation np (RandomState np 1729) n)"
  define locs_v where
    "locs_v = filter (\<lambda>i. index data ! i \<notin> set (map ((!) (index data)) locs_t)) [0..<n]"
  from run have "reformat_and_split np g ?enc = Inr out \<and> index d = index data"
  proof
    assume "first_preparation np g data = Inr out \<and> d = data"
    then show ?thesis
      by (simp add: first_preparation_def)
  next
    assume a: "second_preparation np g data = Inr out \<and> clean_cell data = Inr (data, d)"
    then have "index d = index data"
      using clean_cell_ok(2) by blast
    moreover have "reformat_and_split np g ?enc = Inr out"
    proof -
      from a have "clean_cell data = Inr (data, d)" ..
      moreover from a have "second_preparation np g data = Inr out" ..
      ultimately show ?thesis
        by (simp add: second_preparation_def)
    qed
    ultimately show ?thesis by simp
  qed
  then have split: "reformat_and_split np g ?enc = Inr out" and i: "index ?enc = index data"
    by simp_all
  note r = reformat_and_split_ok [OF split]
  note l = label_first_ok [OF r(1)]
  note f = frames_of_split [OF split]
  have "\<forall>nc \<in> set (columns ?enc). \<not> is_object (snd nc)"
    by (intro ballI) (rule get_dummies_not_object)
  note c = csv_of_split [OF split this]
  have index: "index ?md = index data"
    using f(1) i by simp
  have train: "train_data out = take_rows locs_t ?md"
    using f(2) by (simp only: i locs_t_def n_def)
  have "index (train_data out) = map ((!) (index data)) locs_t"
    by (subst train) (simp add: index)
  then have validation: "validation_data out = take_rows locs_v ?md"
    using f(3) by (simp only: i locs_v_def n_def)
  have tcsv: "train_csv out =
      map (\<lambda>p. map (\<lambda>(name, c). Value (cell c p)) (columns ?md)) locs_t"
    using r(4) by (simp only: train to_csv_take_rows)
  have vcsv: "validation_csv out =
      map (\<lambda>p. map (\<lambda>(name, c). Value (cell c p)) (columns ?md)) locs_v"
    using r(5) by (simp only: validation to_csv_take_rows)
  have "\<exists>rest. map fst (columns ?md) = ''y_yes'' # rest \<and> ''y_no'' \<notin> set rest"
    using model_data_names [OF r(1)] .
  then obtain rest where
    "map fst (columns ?md) = ''y_yes'' # rest \<and> ''y_no'' \<notin> set rest" ..
  then have "map fst (columns (train_data out)) = ''y_yes'' # rest \<and>
             map fst (columns (validation_data out)) = ''y_yes'' # rest \<and>
             ''y_no'' \<notin> set rest"
    using c(3,4) by simp
  then have names: "\<exists>rest. map fst (columns (train_data out)) = ''y_yes'' # rest \<and>
             map fst (columns (validation_data out)) = ''y_yes'' # rest \<and>
             ''y_no'' \<notin> set rest" ..
  have tnum: "\<forall>line \<in> set (train_csv out). \<forall>f \<in> set line. \<exists>v. f = Value v \<and> is_number v"
    by (intro ballI) (rule c(7))
  have vnum: "\<forall>line \<in> set (validation_csv out). \<forall>f \<in> set line.
             \<exists>v. f = Value v \<and> is_number v"
    by (intro ballI) (rule c(8))
  have label: "\<forall>ys. (''y'', Object ys) \<in> set (columns d) \<and>
      set ys = {Some ''yes'', Some ''no''} \<and>
      length (filter (\<lambda>(name, c). name = ''y_yes'') (columns ?enc)) = 1 \<longrightarrow>
      hd (columns ?md) = (''y_yes'', Indicator (dummy ys ''yes'')) \<and>
      map hd (train_csv out) = map (\<lambda>p. Value (UInt8 (dummy ys ''yes'' ! p))) locs_t \<and>
      map hd (validation_csv out) = map (\<lambda>p. Value (UInt8 (dummy ys ''yes'' ! p))) locs_v"
  proof (intro allI impI)
    fix ys
    assume a: "(''y'', Object ys) \<in> set (columns d) \<and>
      set ys = {Some ''yes'', Some ''no''} \<and>
      length (filter (\<lambda>(name, c). name = ''y_yes'') (columns ?enc)) = 1"
    then have h: "hd (columns ?md) = (''y_yes'', Indicator (dummy ys ''yes''))"
      using label_column_first [OF r(1)] by blast
    have ne: "columns ?md \<noteq> []"
      using l(2,3) by simp
    have e: "hd (map (\<lambda>(name, c). Value (cell c p)) (columns ?md)) =
            Value (UInt8 (dummy ys ''yes'' ! p))" for p
      using ne h by (simp add: hd_map)
    have t: "map hd (train_csv out) = map (\<lambda>p. Value (UInt8 (dummy ys ''yes'' ! p))) locs_t"
      by (simp only: tcsv map_map comp_def e)
    have v: "map hd (validation_csv out) =
               map (\<lambda>p. Value (UInt8 (dummy ys ''yes'' ! p))) locs_v"
      by (simp only: vcsv map_map comp_def e)
    from h t v
    show "hd (columns ?md) = (''y_yes'', Indicator (dummy ys ''yes'')) \<and>
      map hd (train_csv out) = map (\<lambda>p. Value (UInt8 (dummy ys ''yes'' ! p))) locs_t \<and>
      map hd (validation_csv out) = map (\<lambda>p. Value (UInt8 (dummy ys ''yes'' ! p))) locs_v"
      by (intro conjI)
  qed
  have lt: "locs_t = take (sample_size (length (index data)))
                      (permutation np (RandomState np 1729) (length (index data)))"
    by (simp only: locs_t_def n_def)
  have lv: "locs_v = filter (\<lambda>i. index data ! i \<notin> set (map ((!) (index data)) locs_t))
                      [0..<length (index data)]"
    by (simp only: locs_v_def n_def)
  show ?thesis
    apply (rule exI [of _ locs_t])
    apply (rule exI [of _ locs_v])
    apply (intro conjI)
    apply (rule lt lv index l(3) l(2) train validation tcsv vcsv c(5) c(6) names tnum vnum
             label)+
    done
qed

theorem exported_csv_format_witness:
  "\<exists>out1 out2.
     first_preparation countdown 0 bank = Inr out1 \<and>
     second_preparation countdown 0 bank = Inr out2 \<and>
     hd (columns (model_data out1)) = (''y_yes'', Indicator [0, 1, 0, 0]) \<and>
     map hd (train_csv out1) = [Value (UInt8 0), Value (UInt8 0), Value (UInt8 1)] \<and>
     map hd (validation_csv out1) = [Value (UInt8 0)] \<and>
     hd (columns (model_data out2)) = (''y_yes'', Indicator [0, 1, 0, 0]) \<and>
     map hd (train_csv out2) = [Value (UInt8 0), Value (UInt8 0), Value (UInt8 1)] \<and>
     map hd (validation_csv out2) = [Value (UInt8 0)]"
proof -
  let ?c = "bank\<lparr>columns :=
              filter (\<lambda>(name, c). name \<notin> set forecast_columns) (columns bank)\<rparr>"
  let ?ys = "[Some ''no'', Some ''yes'', Some ''no'', Some ''no'']"
  from bank_first obtain out1 where 1: "first_preparation countdown 0 bank = Inr out1"
    by blast
  from bank_second obtain out2 where 2: "second_preparation countdown 0 bank = Inr out2"
    by blast
  have c: "clean_cell bank = Inr (bank, ?c)"
    using clean_cell_succeeds [OF bank_forecast_columns] .
  have y: "(''y'', Object ?ys) \<in> set (columns ?c)"
    using label_kept_by_cleaning [OF c bank_label(1)] .
  have d: "dummy ?ys ''yes'' = [0, 1, 0, 0]"
    by (simp add: dummy_def)
  have a: "first_preparation countdown 0 bank = Inr out1 \<and> bank = bank \<or>
           second_preparation countdown 0 bank = Inr out1 \<and> clean_cell bank = Inr (bank, bank)"
    using 1 by simp
  have b: "first_preparation countdown 0 bank = Inr out2 \<and> ?c = bank \<or>
           second_preparation countdown 0 bank = Inr out2 \<and> clean_cell bank = Inr (bank, ?c)"
    using 2 c by simp
  have positions: "map (\<lambda>p. Value (UInt8 ([0, 1, 0, 0] ! p)) :: int csv_field) [3, 2, 1] =
                     [Value (UInt8 0), Value (UInt8 0), Value (UInt8 1)]"
                   "map (\<lambda>p. Value (UInt8 ([0, 1, 0, 0] ! p)) :: int csv_field) [0] =
                     [Value (UInt8 0)]"
    by simp_all
  from exported_csv_format [OF a] obtain lt lv where
    "lt = take (sample_size (length (index bank)))
            (permutation countdown (RandomState countdown 1729) (length (index bank)))"
    "lv = filter (\<lambda>i. index bank ! i \<notin> set (map ((!) (index bank)) lt))
            [0..<length (index bank)]"
    "\<forall>ys. (''y'', Object ys) \<in> set (columns bank) \<and>
          set ys = {Some ''yes'', Some ''no''} \<and>
          length (filter (\<lambda>(name, c). name = ''y_yes'') (columns (get_dummies bank))) = 1
          \<longrightarrow>
          hd (columns (model_data out1)) = (''y_yes'', Indicator (dummy ys ''yes'')) \<and>
          map hd (train_csv out1) = map (\<lambda>p. Value (UInt8 (dummy ys ''yes'' ! p))) lt \<and>
          map hd (validation_csv out1) = map (\<lambda>p. Value (UInt8 (dummy ys ''yes'' ! p))) lv"
    by blast
  then have "lt = [3, 2, 1]" "lv = [0]"
    "hd (columns (model_data out1)) = (''y_yes'', Indicator (dummy ?ys ''yes'')) \<and>
     map hd (train_csv out1) = map (\<lambda>p. Value (UInt8 (dummy ?ys ''yes'' ! p))) lt \<and>
     map hd (validation_csv out1) = map (\<lambda>p. Value (UInt8 (dummy ?ys ''yes'' ! p))) lv"
    using bank_label bank_one_label(1) by (simp_all only: bank_split)
  then have first: "hd (columns (model_data out1)) = (''y_yes'', Indicator [0, 1, 0, 0]) \<and>
     map hd (train_csv out1) = [Value (UInt8 0), Value (UInt8 0), Value (UInt8 1)] \<and>
     map hd (validation_csv out1) = [Value (UInt8 0)]"
    by (simp only: d positions)
  from exported_csv_format [OF b] obtain lt lv where
    "lt = take (sample_size (length (index bank)))
            (permutation countdown (RandomState countdown 1729) (length (index bank)))"
    "lv = filter (\<lambda>i. index bank ! i \<notin> set (map ((!) (index bank)) lt))
            [0..<length (index bank)]"
    "\<forall>ys. (''y'', Object ys) \<in> set (columns ?c) \<and>
          set ys = {Some ''yes'', Some ''no''} \<and>
          length (filter (\<lambda>(name, c). name = ''y_yes'') (columns (get_dummies ?c))) = 1
          \<longrightarrow>
          hd (columns (model_data out2)) = (''y_yes'', Indicator (dummy ys ''yes'')) \<and>
          map hd (train_csv out2) = map (\<lambda>p. Value (UInt8 (dummy ys ''yes'' ! p))) lt \<and>
          map hd (validation_csv out2) = map (\<lambda>p. Value (UInt8 (dummy ys ''yes'' ! p))) lv"
    by blast
  then have "lt = [3, 2, 1]" "lv = [0]"
    "hd (columns (model_data out2)) = (''y_yes'', Indicator (dummy ?ys ''yes'')) \<and>
     map hd (train_csv out2) = map (\<lambda>p. Value (UInt8 (dummy ?ys ''yes'' ! p))) lt \<and>
     map hd (validation_csv out2) = map (\<lambda>p. Value (UInt8 (dummy ?ys ''yes'' ! p))) lv"
    using y bank_label(2) bank_one_label(2) by (simp_all only: bank_split)
  then have second: "hd (columns (model_data out2)) = (''y_yes'', Indicator [0, 1, 0, 0]) \<and>
     map hd (train_csv out2) = [Value (UInt8 0), Value (UInt8 0), Value (UInt8 1)] \<and>
     map hd (validation_csv out2) = [Value (UInt8 0)]"
    by (simp only: d positions)
  from 1 2 first second show ?thesis
    by (intro exI [of _ out1] exI [of _ out2]) simp
qed

text \<open>
  C8. In both reformatting cells, when the row labels are distinct (as \<^verbatim>\<open>read_csv\<close> makes
  them), numpy's permutation is a permutation and the frame has fewer than \<open>2^49\<close> rows: the
  rows of the training and of the validation frame together are the rows of the encoded
  frame, each once; no row label is in both; and the training frame holds 70 percent of the
  rows, rounded to an integer (it differs from \<open>7 n / 10\<close> by at most a half).
\<close>

theorem split_is_a_partition:
  fixes data :: "'n dataframe"
  assumes perm: "mset (permutation np (RandomState np 1729) (length (index data))) =
                   mset [0..<length (index data)]"
      and dist: "distinct (index data)"
      and small: "length (index data) < 2 ^ 49"
  shows
   "(case first_preparation np g data of
       Inl e \<Rightarrow> True
     | Inr out \<Rightarrow>
         mset (frame_rows (train_data out)) + mset (frame_rows (validation_data out)) =
           mset (frame_rows (model_data out)) \<and>
         set (index (train_data out)) \<inter> set (index (validation_data out)) = {} \<and>
         \<bar>10 * int (length (index (train_data out))) -
           7 * int (length (index (model_data out)))\<bar> \<le> 5) \<and>
    (case second_preparation np g data of
       Inl e \<Rightarrow> True
     | Inr out \<Rightarrow>
         mset (frame_rows (train_data out)) + mset (frame_rows (validation_data out)) =
           mset (frame_rows (model_data out)) \<and>
         set (index (train_data out)) \<inter> set (index (validation_data out)) = {} \<and>
         \<bar>10 * int (length (index (train_data out))) -
           7 * int (length (index (model_data out)))\<bar> \<le> 5)"
proof (intro conjI)
  show "case first_preparation np g data of
       Inl e \<Rightarrow> True
     | Inr out \<Rightarrow>
         mset (frame_rows (train_data out)) + mset (frame_rows (validation_data out)) =
           mset (frame_rows (model_data out)) \<and>
         set (index (train_data out)) \<inter> set (index (validation_data out)) = {} \<and>
         \<bar>10 * int (length (index (train_data out))) -
           7 * int (length (index (model_data out)))\<bar> \<le> 5"
  proof (cases "first_preparation np g data")
    case (Inl e)
    then show ?thesis by simp
  next
    case (Inr out)
    then have "reformat_and_split np g (get_dummies data) = Inr out"
      by (simp add: first_preparation_def)
    from partition_of_split [OF this] perm dist small Inr
    show ?thesis by simp
  qed
  show "case second_preparation np g data of
       Inl e \<Rightarrow> True
     | Inr out \<Rightarrow>
         mset (frame_rows (train_data out)) + mset (frame_rows (validation_data out)) =
           mset (frame_rows (model_data out)) \<and>
         set (index (train_data out)) \<inter> set (index (validation_data out)) = {} \<and>
         \<bar>10 * int (length (index (train_data out))) -
           7 * int (length (index (model_data out)))\<bar> \<le> 5"
  proof (cases "second_preparation np g data")
    case (Inl e)
    then show ?thesis by simp
  next
    case (Inr out)
    from second_preparation_ok [OF this] obtain c where
      c: "clean_cell data = Inr (data, c)" "reformat_and_split np g (get_dummies c) = Inr out"
      by blast
    have "index c = index data"
      using clean_cell_ok(2) [OF c(1)] .
    with partition_of_split [OF c(2)] perm dist small Inr
    show ?thesis by simp
  qed
qed

theorem split_is_a_partition_witness:
  "\<exists>out1 out2.
     first_preparation countdown 0 bank = Inr out1 \<and>
     second_preparation countdown 0 bank = Inr out2 \<and>
     mset (frame_rows (train_data out1)) + mset (frame_rows (validation_data out1)) =
       mset (frame_rows (model_data out1)) \<and>
     set (index (train_data out1)) \<inter> set (index (validation_data out1)) = {} \<and>
     mset (frame_rows (train_data out2)) + mset (frame_rows (validation_data out2)) =
       mset (frame_rows (model_data out2)) \<and>
     set (index (train_data out2)) \<inter> set (index (validation_data out2)) = {}"
proof -
  from bank_first obtain out1 where 1: "first_preparation countdown 0 bank = Inr out1"
    by blast
  from bank_second obtain out2 where 2: "second_preparation countdown 0 bank = Inr out2"
    by blast
  show ?thesis
    using split_is_a_partition [OF bank_rows, of 0] 1 2
    by auto
qed

text \<open>
  C9. The split does not depend on the state of numpy's global generator, the only thing that
  differs between two runs on the same dataframe: \<^verbatim>\<open>sample\<close> is given the seed 1729 and
  draws from a generator made from it. Two runs of a reformatting cell on the same
  \<^verbatim>\<open>data\<close> end alike, with the same frames and the same files.
\<close>

theorem split_is_deterministic:
  fixes data :: "'a dataframe"
  shows "first_preparation np g data = first_preparation np g' data \<and>
   second_preparation np g data = second_preparation np g' data"
proof -
  have "sample np g (Some 1729) md = sample np g' (Some 1729) md" for md :: "'a dataframe"
    by (simp add: sample_def)
  then have "reformat_and_split np g md0 = reformat_and_split np g' md0" for md0 :: "'a dataframe"
    by (cases "label_first md0") (simp_all add: reformat_and_split_def)
  then show ?thesis
    by (cases "clean_cell data") (auto simp: first_preparation_def second_preparation_def)
qed

text \<open>
  The seed is what makes it so: without one, \<^verbatim>\<open>sample\<close> draws from the global generator
  and two runs may select different rows.
\<close>

lemma unseeded_sample_differs:
  "map_sum id index (sample rotating 0 None bank) = Inr [0, 1, 2] \<and>
   map_sum id index (sample rotating 1 None bank) = Inr [1, 2, 3]"
proof -
  have "[0..<4] = [0, 1, 2, 3]"
    by (simp add: upt_rec)
  moreover have "length (index bank) = 4"
    by (simp add: bank_def)
  ultimately have
    "sample rotating g None bank = Inr (take_rows (take 3 (rotate g [0, 1, 2, 3])) bank)" for g
    by (simp add: sample_def Let_def sample_size_4 rotating_def)
  moreover have "index bank = [0, 1, 2, 3]"
    by (simp add: bank_def)
  ultimately show ?thesis
    by (simp add: rotate1_def)
qed

text \<open>
  C10. When the six columns are columns of \<^verbatim>\<open>data\<close>, the cleaning cell runs to its end;
  \<^verbatim>\<open>data\<close> is afterwards what it was; \<^verbatim>\<open>clean_data\<close> has the row labels of
  \<^verbatim>\<open>data\<close> and, in order and with their values, exactly the columns of \<^verbatim>\<open>data\<close> that
  are not labelled \<^verbatim>\<open>duration\<close>, \<^verbatim>\<open>emp.var.rate\<close>, \<^verbatim>\<open>cons.price.idx\<close>,
  \<^verbatim>\<open>cons.conf.idx\<close>, \<^verbatim>\<open>euribor3m\<close> or \<^verbatim>\<open>nr.employed\<close>; with distinct column labels
  (as \<^verbatim>\<open>read_csv\<close> makes them) that is six columns fewer.
\<close>

theorem cleaning_drops_six_columns:
  assumes "set forecast_columns \<subseteq> fst ` set (columns data)"
  shows "\<exists>clean_data.
           clean_cell data = Inr (data, clean_data) \<and>
           index clean_data = index data \<and>
           columns clean_data =
             filter (\<lambda>(name, c). name \<notin> set [''duration'', ''emp.var.rate'',
               ''cons.price.idx'', ''cons.conf.idx'', ''euribor3m'', ''nr.employed''])
               (columns data) \<and>
           (distinct (map fst (columns data)) \<longrightarrow>
              length (columns clean_data) + 6 = length (columns data))"
proof -
  let ?kept = "filter (\<lambda>(name, c). name \<notin> set forecast_columns) (columns data)"
  have "distinct (map fst (columns data)) \<longrightarrow> length ?kept + 6 = length (columns data)"
  proof
    assume d: "distinct (map fst (columns data))"
    let ?names = "filter (\<lambda>name. name \<in> set forecast_columns) (map fst (columns data))"
    have "set ?names = set forecast_columns"
      using assms by auto
    moreover have "distinct ?names"
      using d by simp
    moreover have "distinct forecast_columns"
      by (simp add: forecast_columns_def)
    ultimately have "mset ?names = mset forecast_columns"
      using set_eq_iff_mset_eq_distinct by blast
    then have "length ?names = length forecast_columns"
      by (rule mset_eq_length)
    then have "length ?names = 6"
      by (simp add: forecast_columns_def)
    moreover have "?names =
        map fst (filter (\<lambda>(name, c). name \<in> set forecast_columns) (columns data))"
      by (simp add: filter_map comp_def case_prod_unfold)
    ultimately have
      "length (filter (\<lambda>(name, c). name \<in> set forecast_columns) (columns data)) = 6"
      by simp
    moreover have
      "length (filter (\<lambda>(name, c). name \<in> set forecast_columns) (columns data)) +
       length ?kept = length (columns data)"
      using sum_length_filter_compl [of "\<lambda>(name, c). name \<in> set forecast_columns" "columns data"]
      by (simp add: case_prod_unfold)
    ultimately show "length ?kept + 6 = length (columns data)"
      by simp
  qed
  then show ?thesis
    using clean_cell_succeeds [OF assms] by (simp add: forecast_columns_def)
qed

theorem cleaning_drops_six_columns_witness:
  "clean_cell bank =
     Inr (bank,
          \<lparr>index = [0, 1, 2, 3],
           columns =
             [(''age'', Numeric [56, 57, 37, 40]),
              (''marital'', Object [Some ''married'', Some ''single'', Some ''married'',
                                    Some ''divorced'']),
              (''y'', Object [Some ''no'', Some ''yes'', Some ''no'', Some ''no''])]\<rparr>) \<and>
   length (columns bank) = 9"
proof -
  from cleaning_drops_six_columns [OF bank_forecast_columns] obtain c where
    c: "clean_cell bank = Inr (bank, c)" "index c = index bank"
       "columns c =
          filter (\<lambda>(name, c). name \<notin> set [''duration'', ''emp.var.rate'',
               ''cons.price.idx'', ''cons.conf.idx'', ''euribor3m'', ''nr.employed''])
               (columns bank)"
    by blast
  have "c = \<lparr>index = index c, columns = columns c\<rparr>"
    by simp
  then show ?thesis
    using c by (simp add: bank_def)
qed

section \<open>Properties of the tuning cells\<close>

lemmas cell_defs =
  set_up_tuner_def commented_ranges_def commented_tuner_def tuner_expression_def
  HyperparameterTuner_def launch_first_job_def fit_def assign_tuning_job_name_def
  configure_warm_start_def WarmStartConfig_def construct_tuner_warm_start_def
  launch_warm_start_job_def prepare_warm_start_def accepting_sdk_def

subsection \<open>What a cell that ran to its end has done\<close>

lemma set_up_tuner_ok:
  assumes "set_up_tuner (Some re) (Some te) ns = (ns', None)"
  shows "\<exists>hr t ns1 ns3.
           ns1 = ns\<lparr>imported := imported ns \<union>
                   {''IntegerParameter'', ''ContinuousParameter'', ''HyperparameterTuner''}\<rparr> \<and>
           re ns1 = Inr hr \<and>
           ns3 = ns1\<lparr>hyperparameter_ranges := Some hr,
                      objective_metric_name := Some ''validation:auc''\<rparr> \<and>
           te ns3 = Inr t \<and> ns' = ns3\<lparr>tuner := Some t\<rparr>"
  using assms
  by (auto simp: set_up_tuner_def Let_def split: sum.splits)

lemma commented_tuner_ok:
  assumes "commented_tuner ns = Inr t"
  shows "Some (metric_name t) = objective_metric_name ns \<and> objective_type t = ''Maximize'' \<and>
         max_jobs t = 5 \<and> max_parallel_jobs t = 3 \<and> Some (ranges t) = hyperparameter_ranges ns
         \<and> Some (estimator t) = xgb ns"
  using assms
  by (auto simp: commented_tuner_def tuner_expression_def HyperparameterTuner_def
           split: if_splits option.splits)

lemma launch_first_job_ok:
  assumes "launch_first_job sdk ns = (ns', None)"
  shows "\<exists>t tr va. tuner ns = Some t \<and> s3_input_train ns = Some tr \<and>
           s3_input_validation ns = Some va \<and>
           create_tuning_job sdk (t\<lparr>current_job_name := Some (job_name_for sdk t)\<rparr>)
             [(''train'', tr), (''validation'', va)] = None \<and>
           ns' = ns\<lparr>tuner := Some (t\<lparr>current_job_name := Some (job_name_for sdk t)\<rparr>)\<rparr>"
  using assms
  by (auto simp: launch_first_job_def fit_def Let_def split: option.splits)


lemma configure_warm_start_bound:
  "tuning_job_name ns = Some j \<Longrightarrow>
   warm_start_config (fst (configure_warm_start ns)) =
     Some \<lparr>warm_start_type = TRANSFER_LEARNING, parents = {j}\<rparr> \<and>
   snd (configure_warm_start ns) = None"
  by (simp add: configure_warm_start_def WarmStartConfig_def Let_def)

lemma construct_tuner_warm_start_ok:
  assumes "construct_tuner_warm_start ns = (ns', None)"
  shows "\<exists>t. tuner_warm_start ns' = Some t \<and> warm_start t = warm_start_config ns \<and>
              warm_start_config ns \<noteq> None \<and>
              Some (metric_name t) = objective_metric_name ns \<and>
              objective_type t = ''Maximize'' \<and> Some (ranges t) = hyperparameter_ranges ns \<and>
              max_jobs t = 20 \<and> max_parallel_jobs t = 2 \<and> current_job_name t = None \<and>
              tuning_job_name ns' = tuning_job_name ns"
  using assms
  by (auto simp: construct_tuner_warm_start_def HyperparameterTuner_def
           split: if_splits option.splits sum.splits)



subsection \<open>The concrete states, evaluated\<close>

lemma instructed_run:
  "set_up_tuner (Some commented_ranges) (Some commented_tuner) fresh_namespace =
     (instructed_namespace, None)"
  by (simp add: instructed_namespace_def fresh_namespace_def cell_defs Let_def)

lemma launched_run:
  "launch_first_job accepting_sdk instructed_namespace = (launched_namespace, None)"
  by (simp add: launched_namespace_def instructed_namespace_def fresh_namespace_def
        cell_defs Let_def)

lemma warm_start_run:
  "prepare_warm_start launched_namespace = (warm_start_namespace, None)"
  by (simp add: warm_start_namespace_def launched_namespace_def instructed_namespace_def
        fresh_namespace_def cell_defs Let_def)


lemma minimizing_run:
  "set_up_tuner (Some commented_ranges) (Some (tuner_expression ''Minimize'' 5 3))
     fresh_namespace = (minimizing_namespace, None)"
  by (simp add: minimizing_namespace_def fresh_namespace_def cell_defs Let_def)

lemma minimizing_launch_run:
  "launch_first_job accepting_sdk minimizing_namespace =
     (fst (launch_first_job accepting_sdk minimizing_namespace), None)"
  by (simp add: minimizing_namespace_def fresh_namespace_def cell_defs Let_def)

subsection \<open>The printed lines\<close>








subsection \<open>The claims about the tuning cells\<close>

text \<open>
  C3. When the first job has been launched and the three warm-start cells run to their end,
  the second tuner carries a warm-start configuration whose parent set is the singleton of
  the first job's name, the name under which the service accepted the first tuner's job (one
  parent, within the limit of five), and whose type is \<^verbatim>\<open>TRANSFER_LEARNING\<close>.
\<close>

theorem warm_start_from_first_job:
  assumes "launch_first_job sdk ns = (ns1, None)"
      and "prepare_warm_start ns1 = (ns2, None)"
  shows "\<exists>t tr va tw w.
           tuner ns = Some t \<and>
           create_tuning_job sdk (t\<lparr>current_job_name := Some (job_name_for sdk t)\<rparr>)
             [(''train'', tr), (''validation'', va)] = None \<and>
           tuning_job_name ns2 = Some (Some (job_name_for sdk t)) \<and>
           tuner_warm_start ns2 = Some tw \<and> warm_start tw = Some w \<and>
           parents w = {Some (job_name_for sdk t)} \<and>
           card (parents w) = 1 \<and> card (parents w) \<le> 5 \<and>
           warm_start_type w = TRANSFER_LEARNING"
proof -
  from launch_first_job_ok [OF assms(1)] obtain t tr va where
    l: "tuner ns = Some t"
       "create_tuning_job sdk (t\<lparr>current_job_name := Some (job_name_for sdk t)\<rparr>)
          [(''train'', tr), (''validation'', va)] = None"
       "ns1 = ns\<lparr>tuner := Some (t\<lparr>current_job_name := Some (job_name_for sdk t)\<rparr>)\<rparr>"
    by blast
  let ?a = "fst (assign_tuning_job_name ns1)"
  let ?c = "fst (configure_warm_start ?a)"
  have a: "tuning_job_name ?a = Some (Some (job_name_for sdk t))"
    using l(3) by (simp add: assign_tuning_job_name_def)
  then have w: "warm_start_config ?c =
      Some \<lparr>warm_start_type = TRANSFER_LEARNING, parents = {Some (job_name_for sdk t)}\<rparr>"
    using configure_warm_start_bound by blast
  have j: "tuning_job_name ?c = Some (Some (job_name_for sdk t))"
    using a by (simp add: configure_warm_start_def WarmStartConfig_def Let_def)
  have c: "construct_tuner_warm_start ?c = (ns2, None)"
    using assms(2) by (simp add: prepare_warm_start_def)
  from construct_tuner_warm_start_ok [OF c] obtain tw where
    tw: "tuner_warm_start ns2 = Some tw" "warm_start tw = warm_start_config ?c"
        "tuning_job_name ns2 = tuning_job_name ?c"
    by blast
  have "tuner ns = Some t \<and>
        create_tuning_job sdk (t\<lparr>current_job_name := Some (job_name_for sdk t)\<rparr>)
          [(''train'', tr), (''validation'', va)] = None \<and>
        tuning_job_name ns2 = Some (Some (job_name_for sdk t)) \<and>
        tuner_warm_start ns2 = Some tw \<and>
        warm_start tw =
          Some \<lparr>warm_start_type = TRANSFER_LEARNING, parents = {Some (job_name_for sdk t)}\<rparr>"
    using l(1,2) tw w j by simp
  then show ?thesis
    by (intro exI [of _ t] exI [of _ tr] exI [of _ va] exI [of _ tw]
          exI [of _ "\<lparr>warm_start_type = TRANSFER_LEARNING,
                       parents = {Some (job_name_for sdk t)}\<rparr>"]) simp
qed

theorem warm_start_from_first_job_witness:
  "\<exists>tw w. tuner_warm_start warm_start_namespace = Some tw \<and> warm_start tw = Some w \<and>
          parents w = {Some ''xgboost-190101-0000''} \<and> card (parents w) = 1 \<and>
          warm_start_type w = TRANSFER_LEARNING"
proof -
  have "\<exists>t. tuner instructed_namespace = Some t \<and>
             job_name_for accepting_sdk t = ''xgboost-190101-0000''"
    by (simp add: instructed_namespace_def fresh_namespace_def cell_defs Let_def)
  with warm_start_from_first_job [OF launched_run warm_start_run]
  show ?thesis by auto
qed

text \<open>
  C4, as the code has it. The notebook leaves both right-hand sides to the reader. Whatever
  two expressions are typed, the cell evaluates the first after the import and binds
  \<^verbatim>\<open>hyperparameter_ranges\<close> to its value, binds \<^verbatim>\<open>objective_metric_name\<close> to
  \<^verbatim>\<open>'validation:auc'\<close>, evaluates the second in the namespace so extended and binds
  \<^verbatim>\<open>tuner\<close> to its value; the next cell calls \<^verbatim>\<open>fit\<close> on that tuner with the
  \<^verbatim>\<open>train\<close> and \<^verbatim>\<open>validation\<close> inputs. When the expressions are the ones the comments
  describe, the search space is \<^verbatim>\<open>eta\<close> in [0,1], \<^verbatim>\<open>alpha\<close> in [0,2] and
  \<^verbatim>\<open>min_child_weight\<close> in [1,10] (continuous) and \<^verbatim>\<open>max_depth\<close> in [1,10] (integer),
  and the tuner is one of \<^verbatim>\<open>xgb\<close> for that search space with 5 \<^verbatim>\<open>max_jobs\<close> and 3
  \<^verbatim>\<open>max_parallel_jobs\<close>.
\<close>

theorem first_tuner_is_the_readers:
  assumes "set_up_tuner (Some re) (Some te) ns = (ns1, None)"
      and "launch_first_job sdk ns1 = (ns2, None)"
  shows "\<exists>hr t tr va ns_i ns_b.
           ns_i = ns\<lparr>imported := imported ns \<union>
                    {''IntegerParameter'', ''ContinuousParameter'', ''HyperparameterTuner''}\<rparr> \<and>
           re ns_i = Inr hr \<and>
           ns_b = ns_i\<lparr>hyperparameter_ranges := Some hr,
                       objective_metric_name := Some ''validation:auc''\<rparr> \<and>
           te ns_b = Inr t \<and>
           ns1 = ns_b\<lparr>tuner := Some t\<rparr> \<and>
           hyperparameter_ranges ns1 = Some hr \<and> tuner ns1 = Some t \<and>
           objective_metric_name ns1 = Some ''validation:auc'' \<and>
           s3_input_train ns1 = Some tr \<and> s3_input_validation ns1 = Some va \<and>
           create_tuning_job sdk (t\<lparr>current_job_name := Some (job_name_for sdk t)\<rparr>)
             [(''train'', tr), (''validation'', va)] = None \<and>
           tuner ns2 = Some (t\<lparr>current_job_name := Some (job_name_for sdk t)\<rparr>) \<and>
           (re = commented_ranges \<longrightarrow>
              hr = [(''eta'', ContinuousParameter 0 1), (''alpha'', ContinuousParameter 0 2),
                    (''min_child_weight'', ContinuousParameter 1 10),
                    (''max_depth'', IntegerParameter 1 10)]) \<and>
           (te = commented_tuner \<longrightarrow>
              xgb ns = Some (estimator t) \<and> ranges t = hr \<and>
              max_jobs t = 5 \<and> max_parallel_jobs t = 3)"
proof -
  from set_up_tuner_ok [OF assms(1)] obtain hr t ns_i ns_b where
    s: "ns_i = ns\<lparr>imported := imported ns \<union>
                   {''IntegerParameter'', ''ContinuousParameter'', ''HyperparameterTuner''}\<rparr>"
       "re ns_i = Inr hr"
       "ns_b = ns_i\<lparr>hyperparameter_ranges := Some hr,
                      objective_metric_name := Some ''validation:auc''\<rparr>"
       "te ns_b = Inr t" "ns1 = ns_b\<lparr>tuner := Some t\<rparr>"
    by blast
  from launch_first_job_ok [OF assms(2)] obtain t' tr va where
    l: "tuner ns1 = Some t'" "s3_input_train ns1 = Some tr" "s3_input_validation ns1 = Some va"
       "create_tuning_job sdk (t'\<lparr>current_job_name := Some (job_name_for sdk t')\<rparr>)
          [(''train'', tr), (''validation'', va)] = None"
       "ns2 = ns1\<lparr>tuner := Some (t'\<lparr>current_job_name := Some (job_name_for sdk t')\<rparr>)\<rparr>"
    by blast
  have tt: "t' = t" using s(5) l(1) by simp
  have a: "re = commented_ranges \<longrightarrow>
              hr = [(''eta'', ContinuousParameter 0 1), (''alpha'', ContinuousParameter 0 2),
                    (''min_child_weight'', ContinuousParameter 1 10),
                    (''max_depth'', IntegerParameter 1 10)]"
    using s(2) by (auto simp: commented_ranges_def)
  have b: "te = commented_tuner \<longrightarrow>
             xgb ns = Some (estimator t) \<and> ranges t = hr \<and>
             max_jobs t = 5 \<and> max_parallel_jobs t = 3"
  proof
    assume "te = commented_tuner"
    then have "commented_tuner ns_b = Inr t" using s(4) by simp
    from commented_tuner_ok [OF this]
    show "xgb ns = Some (estimator t) \<and> ranges t = hr \<and>
          max_jobs t = 5 \<and> max_parallel_jobs t = 3"
      using s(1,3) by simp
  qed
  have c: "hyperparameter_ranges ns1 = Some hr \<and> tuner ns1 = Some t \<and>
        objective_metric_name ns1 = Some ''validation:auc'' \<and>
        s3_input_train ns1 = Some tr \<and> s3_input_validation ns1 = Some va \<and>
        create_tuning_job sdk (t\<lparr>current_job_name := Some (job_name_for sdk t)\<rparr>)
          [(''train'', tr), (''validation'', va)] = None \<and>
        tuner ns2 = Some (t\<lparr>current_job_name := Some (job_name_for sdk t)\<rparr>)"
    using s(3,5) l tt by simp
  show ?thesis
    apply (rule exI [of _ hr])
    apply (rule exI [of _ t])
    apply (rule exI [of _ tr])
    apply (rule exI [of _ va])
    apply (rule exI [of _ ns_i])
    apply (rule exI [of _ ns_b])
    using s a b c apply blast
    done
qed

theorem first_tuner_is_the_readers_witness:
  "(\<exists>t. tuner instructed_namespace = Some t \<and>
        tuner launched_namespace =
          Some (t\<lparr>current_job_name := Some (job_name_for accepting_sdk t)\<rparr>) \<and>
        hyperparameter_ranges instructed_namespace =
          Some [(''eta'', ContinuousParameter 0 1), (''alpha'', ContinuousParameter 0 2),
                (''min_child_weight'', ContinuousParameter 1 10),
                (''max_depth'', IntegerParameter 1 10)] \<and>
        ranges t = [(''eta'', ContinuousParameter 0 1), (''alpha'', ContinuousParameter 0 2),
                (''min_child_weight'', ContinuousParameter 1 10),
                (''max_depth'', IntegerParameter 1 10)] \<and>
        max_jobs t = 5 \<and> max_parallel_jobs t = 3) \<and>
   (\<exists>t. \<exists>ns_b :: (unit, unit) namespace.
        tuner_expression ''Minimize'' 5 3 ns_b = Inr t \<and>
        tuner minimizing_namespace = Some t \<and> objective_type t = ''Minimize'')"
proof -
  have "\<exists>t. tuner instructed_namespace = Some t \<and>
        tuner launched_namespace =
          Some (t\<lparr>current_job_name := Some (job_name_for accepting_sdk t)\<rparr>) \<and>
        hyperparameter_ranges instructed_namespace =
          Some [(''eta'', ContinuousParameter 0 1), (''alpha'', ContinuousParameter 0 2),
                (''min_child_weight'', ContinuousParameter 1 10),
                (''max_depth'', IntegerParameter 1 10)] \<and>
        ranges t = [(''eta'', ContinuousParameter 0 1), (''alpha'', ContinuousParameter 0 2),
                (''min_child_weight'', ContinuousParameter 1 10),
                (''max_depth'', IntegerParameter 1 10)] \<and>
        max_jobs t = 5 \<and> max_parallel_jobs t = 3"
    using first_tuner_is_the_readers [OF instructed_run launched_run]
    by auto
  moreover have "\<exists>t. \<exists>ns_b :: (unit, unit) namespace.
        tuner_expression ''Minimize'' 5 3 ns_b = Inr t \<and>
        tuner minimizing_namespace = Some t \<and> objective_type t = ''Minimize''"
  proof -
    from first_tuner_is_the_readers [OF minimizing_run minimizing_launch_run]
    obtain t and ns_b :: "(unit, unit) namespace" where
      t: "tuner_expression ''Minimize'' 5 3 ns_b = Inr t" "tuner minimizing_namespace = Some t"
      by blast
    from t(1) have "objective_type t = ''Minimize''"
      by (auto simp: tuner_expression_def HyperparameterTuner_def
          split: if_splits option.splits)
    with t show ?thesis by blast
  qed
  ultimately show ?thesis ..
qed

text \<open>
  The cell as shipped, with both right-hand sides missing, does not define a search space or
  a tuner: it raises \<^verbatim>\<open>SyntaxError\<close> and leaves the namespace as it was.
\<close>

theorem set_up_tuner_as_shipped:
  "set_up_tuner None None fresh_namespace = (fresh_namespace, Some SyntaxError)"
  by (simp add: set_up_tuner_def)






end
